theory Spec2Isabelle
  imports Complex_Main "HOL-Library.AList"
begin

section \<open>PICMI simulation translation of PIConGPU (picmi/simulation.py)\<close>

text \<open>
  The development follows \<^verbatim>\<open>lib/python/picongpu/picmi/simulation.py\<close>.
  Python objects have identity and are mutated in place, so PICMI species live in a
  heap addressed by references; the simulation object holds references only.
  Exceptions are values of the type \<open>error\<close>; a method that mutates the simulation
  and may raise returns its outcome together with the simulation as the
  exception (or the return) leaves it.
\<close>

subsection \<open>Errors\<close>

datatype error =
    ValueError string
  | AssertionError string
  | AttributeError string
  | KeyError
  | TypeError
  | ZeroDivisionError
  | OverflowError
  | NotImplementedError string

definition ebind :: "error + 'a \<Rightarrow> ('a \<Rightarrow> error + 'b) \<Rightarrow> error + 'b" where
  "ebind m f = (case m of Inl e \<Rightarrow> Inl e | Inr x \<Rightarrow> f x)"

subsection \<open>PICMI species and the simulation object\<close>

datatype ref = Ref nat

fun ref_index :: "ref \<Rightarrow> nat" where
  "ref_index (Ref n) = n"

text \<open>
  Modelled from the spec: PICMI layouts. The layout classes are not in this file;
  the file reads \<open>n_macroparticles_per_cell\<close> of a pseudo-random layout and rejects
  every other kind. Layouts (and profiles) are used as keys of Python dictionaries, and
  which keys count as the same is decided by the \<open>__eq__\<close> and \<open>__hash__\<close> of their
  classes. The specification says that two layouts or two profiles are the same key
  iff they are equal by value; accordingly they are values here, compared with \<open>=\<close>.
\<close>

datatype layout =
    PseudoRandomLayout (n_macroparticles_per_cell: int)
  | GriddedLayout (n_macroparticle_per_cell: "int list")

text \<open>
  The attributes of a PICMI species that this file reads or writes. Masses and
  charges are numbers of a type \<open>'n\<close>; profiles (initial distributions) are values of
  a type \<open>'p\<close>. \<open>ionizers\<close> is what the method \<open>has_ionizers()\<close> returns.
\<close>

record ('n, 'p) picmi_species =
  name :: string
  particle_type :: "string option"
  mass :: "'n option"
  charge :: "'n option"
  initial_distribution :: "'p option"
  density_scale :: "'n option"
  picongpu_ionization_electrons :: "ref option"
  ionizers :: bool

text \<open>
  The module \<open>constants\<close> is not part of this file. The two tests
  \<open>math.isclose(mass, constants.m_e)\<close> and \<open>math.isclose(charge, -constants.q_e)\<close>
  are therefore parameters of the model.
\<close>

record 'n constants =
  isclose_m_e :: "'n \<Rightarrow> bool"
  isclose_minus_q_e :: "'n \<Rightarrow> bool"

record ('n, 'p) simulation =
  heap :: "ref \<Rightarrow> ('n, 'p) picmi_species"
  next_ref :: nat
  species :: "ref list"
  layouts :: "layout option list"
  electron_species :: "ref option"
  logging_info :: "string list"

text \<open>
  Every reference held by the simulation denotes an object allocated earlier, so a
  newly created object is different from all of them.
\<close>

definition allocated :: "('n, 'p) simulation \<Rightarrow> ref \<Rightarrow> bool" where
  "allocated sim r \<longleftrightarrow> ref_index r < next_ref sim"

definition wf_simulation :: "('n, 'p) simulation \<Rightarrow> bool" where
  "wf_simulation sim \<longleftrightarrow> list_all (allocated sim) (species sim)"

subsection \<open>The electron species (\<open>__get_electron_species\<close>)\<close>

definition is_electron :: "'n constants \<Rightarrow> ('n, 'p) picmi_species \<Rightarrow> bool" where
  "is_electron K s \<longleftrightarrow>
     (if particle_type s = Some ''electron'' then True
      else (case mass s of
              None \<Rightarrow> False
            | Some m \<Rightarrow>
                isclose_m_e K m \<and>
                (case charge s of
                   None \<Rightarrow> False
                 | Some q \<Rightarrow> isclose_minus_q_e K q)))"

text \<open>The loop \<open>while electrons_name in all_species_names: electrons_name += "_"\<close>.\<close>

function electrons_name_loop :: "string list \<Rightarrow> string \<Rightarrow> string" where
  "electrons_name_loop all_species_names electrons_name =
     (if electrons_name \<in> set all_species_names
      then electrons_name_loop all_species_names (electrons_name @ ''_'')
      else electrons_name)"
  by pat_completeness auto
termination
proof (relation "measure (\<lambda>(ns, n). Suc (sum_list (map length ns)) - length n)")
  show "wf (measure (\<lambda>(ns, n). Suc (sum_list (map length ns)) - length n))"
    by simp
next
  fix all_species_names :: "string list" and electrons_name :: string
  assume "electrons_name \<in> set all_species_names"
  then have "length electrons_name \<le> sum_list (map length all_species_names)"
    by (simp add: member_le_sum_list)
  then show "((all_species_names, electrons_name @ ''_''), (all_species_names, electrons_name))
      \<in> measure (\<lambda>(ns, n). Suc (sum_list (map length ns)) - length n)"
    by simp
qed

declare electrons_name_loop.simps [simp del]

text \<open>\<open>sep.join(xs)\<close>\<close>

fun join :: "string \<Rightarrow> string list \<Rightarrow> string" where
  "join sep [] = []"
| "join sep [x] = x"
| "join sep (x # y # ys) = x @ sep @ join sep (y # ys)"

text \<open>
  \<open>PicongpuPicmiSpecies(name=electrons_name, particle_type="electron")\<close>: every other
  attribute keeps its default.
\<close>

definition new_electrons :: "string \<Rightarrow> ('n, 'p) picmi_species" where
  "new_electrons electrons_name =
     \<lparr> name = electrons_name, particle_type = Some ''electron'', mass = None, charge = None,
       initial_distribution = None, density_scale = None,
       picongpu_ionization_electrons = None, ionizers = False \<rparr>"

text \<open>\<open>self.add_species(species, layout)\<close> of the PICMI standard appends to both sequences.\<close>

definition add_species ::
  "ref \<Rightarrow> layout option \<Rightarrow> ('n, 'p) simulation \<Rightarrow> ('n, 'p) simulation" where
  "add_species r l sim = sim\<lparr> species := species sim @ [r], layouts := layouts sim @ [l] \<rparr>"

definition ambiguous_message :: string where
  "ambiguous_message =
     ''choice of electron species for ionization is ambiguous, please '' @
     ''set picongpu_ionization_electrons explicitly for ionizable '' @
     ''species; found electron species: ''"

definition created_message :: string where
  "created_message =
     ''no electron species for ionization available, creating electrons with name: ''"

definition get_electron_species ::
  "'n constants \<Rightarrow> ('n, 'p) simulation \<Rightarrow> (error + ref) \<times> ('n, 'p) simulation" where
  "get_electron_species K sim =
     (case electron_species sim of
        Some e \<Rightarrow> (Inr e, sim)
      | None \<Rightarrow>
          (let all_electrons = filter (\<lambda>r. is_electron K (heap sim r)) (species sim) in
           if 1 = length all_electrons then
             (Inr (all_electrons ! 0), sim\<lparr> electron_species := Some (all_electrons ! 0) \<rparr>)
           else if 0 = length all_electrons then
             (let all_species_names = map (\<lambda>r. name (heap sim r)) (species sim);
                  electrons_name = electrons_name_loop all_species_names ''e'';
                  sim1 = sim\<lparr> logging_info := logging_info sim @ [created_message @ electrons_name] \<rparr>;
                  electrons = Ref (next_ref sim1);
                  sim2 = sim1\<lparr> heap := (heap sim1)(electrons := new_electrons electrons_name),
                               next_ref := Suc (next_ref sim1) \<rparr>;
                  sim3 = add_species electrons None sim2
              in (Inr electrons, sim3\<lparr> electron_species := Some electrons \<rparr>))
           else
             (Inl (ValueError (ambiguous_message @
                     join '', '' (map (\<lambda>r. name (heap sim r)) all_electrons))), sim)))"

subsection \<open>Filling the missing donor references (\<open>__resolve_electrons\<close>)\<close>

lemma get_electron_species_cache:
  "get_electron_species K sim = (Inr el, sim') \<Longrightarrow> electron_species sim' \<noteq> None"
  by (auto simp: get_electron_species_def Let_def add_species_def
           split: option.splits if_splits)

lemma get_electron_species_length:
  "get_electron_species K sim = (res, sim') \<Longrightarrow>
   length (species sim') \<le> length (species sim) + (if electron_species sim = None then 1 else 0)"
  by (auto simp: get_electron_species_def Let_def add_species_def
           split: option.splits if_splits)

text \<open>
  The loop \<open>for picmi_species in self.species\<close>. A Python list iterator reads the list
  by position at every step, so a species appended during the loop is visited too.
\<close>

function resolve_electrons_loop ::
  "'n constants \<Rightarrow> nat \<Rightarrow> ('n, 'p) simulation \<Rightarrow> (error + unit) \<times> ('n, 'p) simulation" where
  "resolve_electrons_loop K i sim =
     (if i < length (species sim) then
        (let picmi_species = species sim ! i in
         if \<not> ionizers (heap sim picmi_species) then resolve_electrons_loop K (Suc i) sim
         else if picongpu_ionization_electrons (heap sim picmi_species) \<noteq> None
           then resolve_electrons_loop K (Suc i) sim
         else
           (case get_electron_species K sim of
              (Inl e, sim') \<Rightarrow> (Inl e, sim')
            | (Inr el, sim') \<Rightarrow>
                resolve_electrons_loop K (Suc i)
                  (sim'\<lparr> heap := (heap sim')(picmi_species :=
                      (heap sim' picmi_species)\<lparr> picongpu_ionization_electrons := Some el \<rparr>) \<rparr>)))
      else (Inr (), sim))"
  by pat_completeness auto
termination
proof (relation "measure (\<lambda>(K, i, sim).
         (length (species sim) - i) + (if electron_species sim = None then 1 else 0))",
       goal_cases)
  case 1
  show ?case by simp
next
  case 2
  then show ?case by auto
next
  case 3
  then show ?case by auto
next
  case (4 K i sim ps res sim' el)
  have "get_electron_species K sim = (Inr el, sim')"
    using 4 by simp
  then show ?case
    using get_electron_species_cache [of K sim el sim']
          get_electron_species_length [of K sim "Inr el" sim'] 4(1)
    by (auto split: if_splits)
qed

declare resolve_electrons_loop.simps [simp del]

definition resolve_electrons ::
  "'n constants \<Rightarrow> ('n, 'p) simulation \<Rightarrow> (error + unit) \<times> ('n, 'p) simulation" where
  "resolve_electrons K sim = resolve_electrons_loop K 0 sim"

subsection \<open>PyPIConGPU species and the translated-species dictionary\<close>

text \<open>
  The classes of \<open>pypicongpu\<close> are not part of this file. A translated species is an
  object of its own, with an identity of its own; of its content the file reads the
  name and the constant \<open>GroundStateIonization\<close>: \<open>has_constant_of_type\<close> tells whether
  there is one, \<open>get_constant_by_type\<close> yields its ionization models, and each model has
  the attribute \<open>ionization_electron_species\<close>, a reference to a translated species.
\<close>

datatype pref = PRef nat

fun pref_index :: "pref \<Rightarrow> nat" where
  "pref_index (PRef n) = n"

record ionization_model =
  ionization_model_name :: string
  ionization_electron_species :: "pref option"

record pypic_species =
  pypic_name :: string
  ground_state_ionization :: "ionization_model list option"

text \<open>
  The dictionary \<open>pypicongpu_by_picmi_species\<close>: its keys are PICMI species objects
  (compared by identity), its items are kept in insertion order.
\<close>

type_synonym species_dict = "(ref \<times> pref) list"

subsection \<open>The ionization electrons of the translated species (\<open>__fill_ionization_electrons\<close>)\<close>

definition not_added_message :: "string \<Rightarrow> string \<Rightarrow> string" where
  "not_added_message electrons_name species_name =
     ''species '' @ electrons_name @ '' (set as electrons for species '' @ species_name @
     '' via picongpu_ionization_species) must be explicitly added with add_species()''"

definition none_has_no_name :: string where
  "none_has_no_name = [CHR 0x27] @ ''NoneType'' @ [CHR 0x27] @ '' object has no attribute '' @
     [CHR 0x27] @ ''name'' @ [CHR 0x27]"

text \<open>
  The loop over the items of the dictionary. When the donor reference is \<open>None\<close> the
  assertion fails as well, but building its message reads \<open>None.name\<close>, which raises
  AttributeError.
\<close>

fun fill_ionization_electrons_loop ::
  "(ref \<Rightarrow> ('n, 'p) picmi_species) \<Rightarrow> species_dict \<Rightarrow> species_dict \<Rightarrow>
   (pref \<Rightarrow> pypic_species) \<Rightarrow> (error + unit) \<times> (pref \<Rightarrow> pypic_species)" where
  "fill_ionization_electrons_loop h d [] ph = (Inr (), ph)"
| "fill_ionization_electrons_loop h d ((picmi_species, pypic_species) # items) ph =
     (case ground_state_ionization (ph pypic_species) of
        None \<Rightarrow> fill_ionization_electrons_loop h d items ph
      | Some ionizer_model_list \<Rightarrow>
          (case picongpu_ionization_electrons (h picmi_species) of
             None \<Rightarrow> (Inl (AttributeError none_has_no_name), ph)
           | Some electrons \<Rightarrow>
               (case map_of d electrons of
                  None \<Rightarrow>
                    (Inl (AssertionError (not_added_message (name (h electrons))
                            (pypic_name (ph pypic_species)))), ph)
                | Some pypic_electrons \<Rightarrow>
                    fill_ionization_electrons_loop h d items
                      (ph(pypic_species := (ph pypic_species)
                         \<lparr> ground_state_ionization := Some (map
                             (\<lambda>model. model\<lparr> ionization_electron_species := Some pypic_electrons \<rparr>)
                             ionizer_model_list) \<rparr>)))))"

definition fill_ionization_electrons ::
  "(ref \<Rightarrow> ('n, 'p) picmi_species) \<Rightarrow> species_dict \<Rightarrow>
   (pref \<Rightarrow> pypic_species) \<Rightarrow> (error + unit) \<times> (pref \<Rightarrow> pypic_species)" where
  "fill_ionization_electrons h pypicongpu_by_picmi_species ph =
     fill_ionization_electrons_loop h pypicongpu_by_picmi_species pypicongpu_by_picmi_species ph"

subsection \<open>Operations\<close>

text \<open>
  A \<open>SimpleDensity\<close> operation places the species of \<open>op_species\<close> (translated species
  objects, a Python set) with \<open>ppc\<close> macroparticles per cell and the translated profile.
  The translation of a profile, \<open>profile.get_as_pypicongpu()\<close>, belongs to the profile
  classes and is a parameter \<open>tr\<close> here; it may raise.
\<close>

record 'q simple_density =
  ppc :: int
  op_profile :: 'q
  op_species :: "pref set"

datatype ('q, 'o) operation =
    SimpleDensity "'q simple_density"
  | NotPlaced pref
  | Independent 'o

text \<open>
  A dictionary is an association list in insertion order: assigning to a new key
  appends an item, assigning to a known key replaces its value in place. Layouts and
  profiles are compared by value, as said above.
\<close>

type_synonym 'p species_by_profile = "('p \<times> ref list) list"

type_synonym 'p species_by_profile_by_layout = "(layout \<times> 'p species_by_profile) list"

text \<open>
  The body of the first loop of \<open>__get_operations_simple_density\<close>. A layout or a
  profile that is not yet a key gets the empty dictionary, respectively the empty
  list, before the species is appended.
\<close>

definition group_species ::
  "(ref \<Rightarrow> ('n, 'p) picmi_species) \<Rightarrow> 'p species_by_profile_by_layout \<Rightarrow>
   ref \<times> layout option \<Rightarrow> 'p species_by_profile_by_layout" where
  "group_species h picmi_species_by_profile_by_layout item =
     (case item of (picmi_species, layout_or_none) \<Rightarrow>
        (case layout_or_none of
           None \<Rightarrow> picmi_species_by_profile_by_layout
         | Some layout \<Rightarrow>
             (case initial_distribution (h picmi_species) of
                None \<Rightarrow> picmi_species_by_profile_by_layout
              | Some profile \<Rightarrow>
                  (let by_profile =
                         (case map_of picmi_species_by_profile_by_layout layout of
                            None \<Rightarrow> [] | Some bp \<Rightarrow> bp);
                       picmi_species_list =
                         (case map_of by_profile profile of None \<Rightarrow> [] | Some xs \<Rightarrow> xs)
                   in AList.update layout
                        (AList.update profile (picmi_species_list @ [picmi_species]) by_profile)
                        picmi_species_by_profile_by_layout))))"

text \<open>The items visited by the two nested loops over the dictionaries, in order.\<close>

definition group_items ::
  "'p species_by_profile_by_layout \<Rightarrow> (layout \<times> 'p \<times> ref list) list" where
  "group_items picmi_species_by_profile_by_layout =
     concat (map (\<lambda>(layout, picmi_species_by_profile).
                    map (\<lambda>(profile, picmi_species_list). (layout, profile, picmi_species_list))
                      picmi_species_by_profile)
             picmi_species_by_profile_by_layout)"

text \<open>\<open>map(lambda picmi_species: pypicongpu_by_picmi_species[picmi_species], ...)\<close>\<close>

fun lookup_species :: "species_dict \<Rightarrow> ref list \<Rightarrow> error + pref list" where
  "lookup_species d [] = Inr []"
| "lookup_species d (picmi_species # rest) =
     (case map_of d picmi_species of
        None \<Rightarrow> Inl KeyError
      | Some pypic_species \<Rightarrow>
          ebind (lookup_species d rest) (\<lambda>others. Inr (pypic_species # others)))"

definition simple_density_op ::
  "('p \<Rightarrow> error + 'q) \<Rightarrow> species_dict \<Rightarrow> layout \<times> 'p \<times> ref list \<Rightarrow> error + 'q simple_density" where
  "simple_density_op tr d item =
     (case item of (layout, profile, picmi_species_list) \<Rightarrow>
        (case layout of
           GriddedLayout v \<Rightarrow> Inl (AssertionError [])
         | PseudoRandomLayout n \<Rightarrow>
             ebind (tr profile) (\<lambda>pypic_profile.
             ebind (lookup_species d picmi_species_list) (\<lambda>pypic_species_list.
             Inr \<lparr> ppc = n, op_profile = pypic_profile, op_species = set pypic_species_list \<rparr>))))"

text \<open>A loop that appends one result per element and stops at the first exception.\<close>

fun emap :: "('a \<Rightarrow> error + 'b) \<Rightarrow> 'a list \<Rightarrow> error + 'b list" where
  "emap f [] = Inr []"
| "emap f (x # xs) = ebind (f x) (\<lambda>y. ebind (emap f xs) (\<lambda>ys. Inr (y # ys)))"

definition get_operations_simple_density ::
  "('p \<Rightarrow> error + 'q) \<Rightarrow> (ref \<Rightarrow> ('n, 'p) picmi_species) \<Rightarrow> ref list \<Rightarrow> layout option list \<Rightarrow>
   species_dict \<Rightarrow> error + 'q simple_density list" where
  "get_operations_simple_density tr h all_species all_layouts pypicongpu_by_picmi_species =
     (let picmi_species_by_profile_by_layout =
            foldl (group_species h) [] (zip all_species all_layouts)
      in emap (simple_density_op tr pypicongpu_by_picmi_species)
           (group_items picmi_species_by_profile_by_layout))"

subsection \<open>Species that are not placed (\<open>__get_operations_not_placed\<close>)\<close>

fun get_operations_not_placed_loop ::
  "(ref \<Rightarrow> ('n, 'p) picmi_species) \<Rightarrow> species_dict \<Rightarrow> (ref \<times> layout option) list \<Rightarrow>
   error + pref list" where
  "get_operations_not_placed_loop h d [] = Inr []"
| "get_operations_not_placed_loop h d ((picmi_species, layout) # rest) =
     (if layout \<noteq> None \<or> initial_distribution (h picmi_species) \<noteq> None
      then get_operations_not_placed_loop h d rest
      else (case map_of d picmi_species of
              None \<Rightarrow> Inl KeyError
            | Some pypic_species \<Rightarrow>
                ebind (get_operations_not_placed_loop h d rest)
                  (\<lambda>ops. Inr (pypic_species # ops))))"

definition get_operations_not_placed ::
  "(ref \<Rightarrow> ('n, 'p) picmi_species) \<Rightarrow> ref list \<Rightarrow> layout option list \<Rightarrow> species_dict \<Rightarrow>
   error + pref list" where
  "get_operations_not_placed h all_species all_layouts pypicongpu_by_picmi_species =
     get_operations_not_placed_loop h pypicongpu_by_picmi_species (zip all_species all_layouts)"

subsection \<open>Operations of the individual species (\<open>__get_operations_from_individual_species\<close>)\<close>

text \<open>
  The methods of the species, profile, solver, grid and laser classes that this file
  calls are defined in other modules; they are parameters of the model. Each may raise.
  A translation reads the PICMI objects and returns the content of a new object.
\<close>

text \<open>
  Objects whose content this file never reads: lasers, custom user input, and the
  translated solver, grid and laser. Each is represented by a label.
\<close>

datatype laser = Laser nat
datatype pypic_laser = PypicLaser nat
datatype pypic_solver = PypicSolver nat
datatype pypic_grid = PypicGrid nat
datatype custom_user_input = CustomUserInput nat
datatype injection_method = InjectionMethod nat

text \<open>
  The grid and the solver of the PICMI simulation. A 3-D Cartesian grid has three
  lower bounds, three upper bounds and three numbers of cells.
\<close>

datatype 'n grid =
    Cartesian3DGrid (lower_bound: "'n \<times> 'n \<times> 'n") (upper_bound: "'n \<times> 'n \<times> 'n")
      (number_of_cells: "'n \<times> 'n \<times> 'n")
  | OtherGrid

record 'n solver =
  solver_method :: string
  cfl :: "'n option"
  grid :: "'n grid"

record ('n, 'p, 'q, 'o) collaborators =
  species_get_as_pypicongpu :: "(ref \<Rightarrow> ('n, 'p) picmi_species) \<Rightarrow> ref \<Rightarrow> error + pypic_species"
  profile_get_as_pypicongpu :: "'p \<Rightarrow> error + 'q"
  get_independent_operations ::
    "(ref \<Rightarrow> ('n, 'p) picmi_species) \<Rightarrow> ref \<Rightarrow> pref \<Rightarrow> error + 'o list"
  solver_get_as_pypicongpu :: "'n solver \<Rightarrow> error + pypic_solver"
  grid_get_as_pypicongpu :: "'n grid \<Rightarrow> error + pypic_grid"
  laser_get_as_pypicongpu :: "laser \<Rightarrow> error + pypic_laser"
  typical_ppc_without_counts :: "error + rat"
  number_divide :: "'n \<Rightarrow> 'n \<Rightarrow> error + 'n"

definition get_operations_from_individual_species ::
  "('n, 'p, 'q, 'o) collaborators \<Rightarrow> (ref \<Rightarrow> ('n, 'p) picmi_species) \<Rightarrow> species_dict \<Rightarrow>
   error + 'o list" where
  "get_operations_from_individual_species C h pypicongpu_by_picmi_species =
     ebind (emap (\<lambda>(picmi_species, pypicongpu_species).
                    get_independent_operations C h picmi_species pypicongpu_species)
              pypicongpu_by_picmi_species)
       (\<lambda>all_operations. Inr (concat all_operations))"

subsection \<open>The init manager (\<open>__get_init_manager\<close>)\<close>

record ('q, 'o) init_manager =
  all_species :: "pref list"
  all_operations :: "('q, 'o) operation list"

text \<open>The translated species are new objects; they live in a heap of their own.\<close>

record pypic_store =
  pypic_heap :: "pref \<Rightarrow> pypic_species"
  pypic_next :: nat

definition both_or_neither_message :: string where
  "both_or_neither_message = ''species need BOTH layout AND initial distribution set (or neither)''"

definition density_scale_message :: string where
  "density_scale_message = ''layout and initial distribution must be set to use density scale''"

text \<open>The checks on every pair of \<open>zip(self.layouts, self.species)\<close>.\<close>

fun check_layouts_and_profiles ::
  "(ref \<Rightarrow> ('n, 'p) picmi_species) \<Rightarrow> (layout option \<times> ref) list \<Rightarrow> error + unit" where
  "check_layouts_and_profiles h [] = Inr ()"
| "check_layouts_and_profiles h ((layout, picmi_species) # rest) =
     (let profile = initial_distribution (h picmi_species);
          ratio = density_scale (h picmi_species) in
      if (layout = None) \<noteq> (profile = None) then Inl (AssertionError both_or_neither_message)
      else if ratio \<noteq> None \<and> \<not> (layout \<noteq> None \<and> profile \<noteq> None)
        then Inl (AssertionError density_scale_message)
      else check_layouts_and_profiles h rest)"

text \<open>
  The loop that translates every species. The dictionary is keyed by the PICMI
  species object, so a species listed twice keeps its place and gets the later
  translation; \<open>all_species\<close> receives every translation.
\<close>

fun translate_species ::
  "('n, 'p, 'q, 'o) collaborators \<Rightarrow> (ref \<Rightarrow> ('n, 'p) picmi_species) \<Rightarrow> ref list \<Rightarrow>
   species_dict \<Rightarrow> pref list \<Rightarrow> pypic_store \<Rightarrow> error + (species_dict \<times> pref list \<times> pypic_store)" where
  "translate_species C h [] d all store = Inr (d, all, store)"
| "translate_species C h (picmi_species # rest) d all store =
     ebind (species_get_as_pypicongpu C h picmi_species) (\<lambda>content.
       (let pypicongpu_species = PRef (pypic_next store);
            store' = store\<lparr> pypic_heap := (pypic_heap store)(pypicongpu_species := content),
                           pypic_next := Suc (pypic_next store) \<rparr>
        in translate_species C h rest (AList.update picmi_species pypicongpu_species d)
             (all @ [pypicongpu_species]) store'))"

definition get_init_manager ::
  "('n, 'p, 'q, 'o) collaborators \<Rightarrow> ('n, 'p) simulation \<Rightarrow> pypic_store \<Rightarrow>
   error + (('q, 'o) init_manager \<times> pypic_store)" where
  "get_init_manager C sim store =
     (if length (species sim) \<noteq> length (layouts sim) then Inl (AssertionError [])
      else
        ebind (check_layouts_and_profiles (heap sim) (zip (layouts sim) (species sim))) (\<lambda>_.
        ebind (translate_species C (heap sim) (species sim) [] [] store)
          (\<lambda>(pypicongpu_by_picmi_species, translated, store1).
        (case fill_ionization_electrons (heap sim) pypicongpu_by_picmi_species (pypic_heap store1) of
           (Inl e, ph) \<Rightarrow> Inl e
         | (Inr _, ph) \<Rightarrow>
        ebind (get_operations_simple_density (profile_get_as_pypicongpu C) (heap sim)
                 (species sim) (layouts sim) pypicongpu_by_picmi_species) (\<lambda>simple_density.
        ebind (get_operations_not_placed (heap sim) (species sim) (layouts sim)
                 pypicongpu_by_picmi_species) (\<lambda>not_placed.
        ebind (get_operations_from_individual_species C (heap sim) pypicongpu_by_picmi_species)
          (\<lambda>independent.
        Inr (\<lparr> all_species = translated,
                all_operations = map SimpleDensity simple_density @ map NotPlaced not_placed @
                                 map Independent independent \<rparr>,
             store1\<lparr> pypic_heap := ph \<rparr>))))))))"

subsection \<open>The typical number of particles per cell\<close>

text \<open>
  Modelled from the spec: \<open>get_typical_particle_per_cell()\<close> of the init manager is not
  in this file. The specification says it is the median across the plan's
  species-level sampling counts, and gives 16 for the counts 8, 16, 32 and 12 for the
  counts 8, 16 (the mean of the two middle values). The sampling count of a species is
  the \<open>ppc\<close> of the SimpleDensity operation that places it. The specification does not
  say what the value is when no species is placed; that value is the parameter
  \<open>typical_ppc_without_counts\<close>.
\<close>

definition sampling_counts :: "('q, 'o) operation list \<Rightarrow> int list" where
  "sampling_counts ops =
     concat (map (\<lambda>operation. case operation of
                     SimpleDensity sd \<Rightarrow> replicate (card (op_species sd)) (ppc sd)
                   | NotPlaced s \<Rightarrow> []
                   | Independent i \<Rightarrow> [])
             ops)"

definition median :: "int list \<Rightarrow> rat" where
  "median xs =
     (let sorted_counts = sort xs; n = length sorted_counts in
      if odd n then of_int (sorted_counts ! (n div 2))
      else (of_int (sorted_counts ! (n div 2 - 1)) + of_int (sorted_counts ! (n div 2))) / 2)"

definition get_typical_particle_per_cell ::
  "('n, 'p, 'q, 'o) collaborators \<Rightarrow> ('q, 'o) init_manager \<Rightarrow> error + rat" where
  "get_typical_particle_per_cell C initmgr =
     (let counts = sampling_counts (all_operations initmgr) in
      if counts = [] then typical_ppc_without_counts C else Inr (median counts))"

subsection \<open>The translation of the simulation (\<open>get_as_pypicongpu\<close>)\<close>

text \<open>
  The attributes of the PICMI simulation besides the species, the layouts and the
  cache of the electron species. \<open>get_as_pypicongpu\<close> only reads them.
\<close>

record 'n attributes =
  time_step_size :: "'n option"
  solver :: "'n solver option"
  max_steps :: "'n option"
  max_time :: "'n option"
  verbose :: "'n option"
  particle_shape :: string
  gamma_boost :: "'n option"
  laser_injection_methods :: "injection_method option list"
  lasers :: "laser list"
  picongpu_typical_ppc :: "int option"
  picongpu_moving_window_move_point :: "'n option"
  picongpu_moving_window_stop_iteration :: "int option"
  picongpu_custom_user_input :: "custom_user_input list option"

text \<open>The PyPIConGPU simulation \<open>s\<close> that is built and returned.\<close>

record ('n, 'q, 'o) pypic_simulation =
  delta_t_si :: "'n option"
  s_solver :: pypic_solver
  s_custom_user_input :: "custom_user_input list option"
  time_steps :: 'n
  s_grid :: pypic_grid
  s_laser :: "pypic_laser option"
  s_init_manager :: "('q, 'o) init_manager"
  typical_ppc :: rat
  moving_window :: "('n \<times> int option) option"

text \<open>
  Modelled from the spec: \<open>util.unsupported(name, value, default)\<close> is not in this file.
  The specification says that an unsupported feature fails fast with a
  feature-not-supported signal naming the offending field; the signal is raised when
  the value differs from the default.
\<close>

definition unsupported :: "string \<Rightarrow> bool \<Rightarrow> error + unit" where
  "unsupported feature differs = (if differs then Inl (NotImplementedError feature) else Inr ())"

text \<open>
  The part of \<open>get_as_pypicongpu\<close> before the electrons are resolved. It reads the
  attributes only, and yields the translated solver, the time steps, the translated
  grid and the translated laser.
\<close>

definition translate_attributes ::
  "('n, 'p, 'q, 'o) collaborators \<Rightarrow> 'n attributes \<Rightarrow>
   error + (pypic_solver \<times> 'n \<times> pypic_grid \<times> pypic_laser option)" where
  "translate_attributes C self =
     (case solver self of
        None \<Rightarrow> Inl (AttributeError ''get_as_pypicongpu'')
      | Some the_solver \<Rightarrow>
     ebind (solver_get_as_pypicongpu C the_solver) (\<lambda>s_solver'.
     ebind (case max_steps self of
              Some steps \<Rightarrow> Inr steps
            | None \<Rightarrow>
               (case max_time self of
                  Some t \<Rightarrow>
                    (case time_step_size self of
                       None \<Rightarrow> Inl TypeError
                     | Some dt \<Rightarrow> number_divide C t dt)
                | None \<Rightarrow> Inl (ValueError
                     ''runtime not specified (neither as step count nor max time)'')))
       (\<lambda>time_steps'.
     ebind (unsupported ''verbose'' (verbose self \<noteq> None)) (\<lambda>_.
     ebind (unsupported ''particle shape'' (particle_shape self \<noteq> ''linear'')) (\<lambda>_.
     ebind (unsupported ''gamma boost, use picongpu_moving_window_move_point instead''
              (gamma_boost self \<noteq> None)) (\<lambda>_.
     ebind (case grid_get_as_pypicongpu C (grid the_solver) of
              Inl (AttributeError a) \<Rightarrow>
                ebind (unsupported ''grid type'' True) (\<lambda>_. Inl (AttributeError ''grid''))
            | Inl e \<Rightarrow> Inl e
            | Inr g \<Rightarrow> Inr g) (\<lambda>s_grid'.
     ebind (if length (laser_injection_methods self) \<noteq>
                 length (filter (\<lambda>m. m = None) (laser_injection_methods self))
            then unsupported ''laser injection method'' (laser_injection_methods self \<noteq> [])
            else Inr ()) (\<lambda>_.
     ebind (if length (lasers self) > 1 then unsupported ''more than one laser'' True
            else Inr ()) (\<lambda>_.
     ebind (if length (lasers self) = 1
            then ebind (laser_get_as_pypicongpu C (lasers self ! 0)) (\<lambda>l. Inr (Some l))
            else Inr None) (\<lambda>s_laser'.
     Inr (s_solver', time_steps', s_grid', s_laser')))))))))))"

definition typical_ppc_message :: string where
  "typical_ppc_message = ''typical_ppc must be >= 1''"

definition get_as_pypicongpu ::
  "('n, 'p, 'q, 'o) collaborators \<Rightarrow> 'n constants \<Rightarrow> 'n attributes \<Rightarrow> ('n, 'p) simulation \<Rightarrow>
   pypic_store \<Rightarrow>
   (error + ('n, 'q, 'o) pypic_simulation) \<times> ('n, 'p) simulation \<times> pypic_store" where
  "get_as_pypicongpu C K self sim store =
     (case translate_attributes C self of
        Inl e \<Rightarrow> (Inl e, sim, store)
      | Inr (s_solver', time_steps', s_grid', s_laser') \<Rightarrow>
     (case resolve_electrons K sim of
        (Inl e, sim') \<Rightarrow> (Inl e, sim', store)
      | (Inr _, sim') \<Rightarrow>
     (case get_init_manager C sim' store of
        Inl e \<Rightarrow> (Inl e, sim', store)
      | Inr (initmgr, store') \<Rightarrow>
     (case (case picongpu_typical_ppc self of
              None \<Rightarrow> get_typical_particle_per_cell C initmgr
            | Some user_ppc \<Rightarrow> Inr (of_int user_ppc)) of
        Inl e \<Rightarrow> (Inl e, sim', store')
      | Inr typical_ppc' \<Rightarrow>
          if typical_ppc' < 1 then (Inl (ValueError typical_ppc_message), sim', store')
          else
            (Inr \<lparr> delta_t_si = time_step_size self,
                   s_solver = s_solver',
                   s_custom_user_input = picongpu_custom_user_input self,
                   time_steps = time_steps',
                   s_grid = s_grid',
                   s_laser = s_laser',
                   s_init_manager = initmgr,
                   typical_ppc = typical_ppc',
                   moving_window =
                     (case picongpu_moving_window_move_point self of
                        None \<Rightarrow> None
                      | Some move_point \<Rightarrow>
                          Some (move_point, picongpu_moving_window_stop_iteration self)) \<rparr>,
             sim', store')))))"

subsection \<open>Time step and CFL parameter of the Yee solver (\<open>__yee_compute_cfl_or_delta_t\<close>)\<close>

text \<open>
  The method computes with Python numbers. What its operators and \<open>math.sqrt\<close> return,
  and when they raise, depends on the numbers' types; the model takes the arithmetic
  as a parameter, so that what is proved of the method holds for every arithmetic.
  \<open>speed_of_light\<close> is \<open>constants.c\<close> (the module is not part of this file), \<open>num_one\<close> is
  the literal \<open>1\<close>, \<open>num_ne\<close> is \<open>!=\<close>, and \<open>num_format\<close> is what \<open>"{}".format\<close> prints
  for a number.
\<close>

record 'n arithmetic =
  num_sub :: "'n \<Rightarrow> 'n \<Rightarrow> error + 'n"
  num_div :: "'n \<Rightarrow> 'n \<Rightarrow> error + 'n"
  num_pow2 :: "'n \<Rightarrow> error + 'n"
  num_add :: "'n \<Rightarrow> 'n \<Rightarrow> error + 'n"
  num_mul :: "'n \<Rightarrow> 'n \<Rightarrow> error + 'n"
  num_sqrt :: "'n \<Rightarrow> error + 'n"
  num_ne :: "'n \<Rightarrow> 'n \<Rightarrow> bool"
  num_one :: 'n
  speed_of_light :: 'n
  num_format :: "'n \<Rightarrow> string"

text \<open>\<open>(upper_bound[i] - lower_bound[i]) / number_of_cells[i]\<close>\<close>

definition spacing :: "'n arithmetic \<Rightarrow> 'n \<Rightarrow> 'n \<Rightarrow> 'n \<Rightarrow> error + 'n" where
  "spacing A lower upper cells = ebind (num_sub A upper lower) (\<lambda>extent. num_div A extent cells)"

text \<open>
  \<open>constants.c * math.sqrt(1 / delta_x**2 + 1 / delta_y**2 + 1 / delta_z**2)\<close>, evaluated
  in Python's order.
\<close>

definition courant_factor :: "'n arithmetic \<Rightarrow> 'n \<Rightarrow> 'n \<Rightarrow> 'n \<Rightarrow> error + 'n" where
  "courant_factor A delta_x delta_y delta_z =
     ebind (num_pow2 A delta_x) (\<lambda>x2.
     ebind (num_div A (num_one A) x2) (\<lambda>inv_x2.
     ebind (num_pow2 A delta_y) (\<lambda>y2.
     ebind (num_div A (num_one A) y2) (\<lambda>inv_y2.
     ebind (num_add A inv_x2 inv_y2) (\<lambda>sum_xy.
     ebind (num_pow2 A delta_z) (\<lambda>z2.
     ebind (num_div A (num_one A) z2) (\<lambda>inv_z2.
     ebind (num_add A sum_xy inv_z2) (\<lambda>sum_xyz.
     ebind (num_sqrt A sum_xyz) (\<lambda>root.
     num_mul A (speed_of_light A) root)))))))))"

definition mismatch_message :: "string \<Rightarrow> string \<Rightarrow> string" where
  "mismatch_message delta_t expected =
     ''time step size (delta t) does not match CFL '' @
     ''(Courant-Friedrichs-Lewy) parameter! delta_t: '' @ delta_t @
     ''; expected from CFL: '' @ expected"

definition yee_compute_cfl_or_delta_t ::
  "'n arithmetic \<Rightarrow> 'n attributes \<Rightarrow> error + 'n attributes" where
  "yee_compute_cfl_or_delta_t A self =
     (case solver self of
        None \<Rightarrow> Inl (AssertionError [])
      | Some the_solver \<Rightarrow>
          if ''Yee'' \<noteq> solver_method the_solver then Inl (AssertionError [])
          else
            (case grid the_solver of
               OtherGrid \<Rightarrow> Inl (AssertionError [])
             | Cartesian3DGrid lower upper cells \<Rightarrow>
                 (case (lower, upper, cells) of
                    ((lower_x, lower_y, lower_z), (upper_x, upper_y, upper_z),
                     (cells_x, cells_y, cells_z)) \<Rightarrow>
                 ebind (spacing A lower_x upper_x cells_x) (\<lambda>delta_x.
                 ebind (spacing A lower_y upper_y cells_y) (\<lambda>delta_y.
                 ebind (spacing A lower_z upper_z cells_z) (\<lambda>delta_z.
                 (case (time_step_size self, cfl the_solver) of
                    (Some delta_t, Some the_cfl) \<Rightarrow>
                      ebind (courant_factor A delta_x delta_y delta_z) (\<lambda>factor.
                      ebind (num_div A the_cfl factor) (\<lambda>delta_t_from_cfl.
                      if num_ne A delta_t_from_cfl delta_t
                      then Inl (ValueError (mismatch_message (num_format A delta_t)
                                  (num_format A delta_t_from_cfl)))
                      else Inr self))
                  | (Some delta_t, None) \<Rightarrow>
                      ebind (courant_factor A delta_x delta_y delta_z) (\<lambda>factor.
                      ebind (num_mul A delta_t factor) (\<lambda>new_cfl.
                      Inr (self\<lparr> solver := Some (the_solver\<lparr> cfl := Some new_cfl \<rparr>) \<rparr>)))
                  | (None, Some the_cfl) \<Rightarrow>
                      ebind (courant_factor A delta_x delta_y delta_z) (\<lambda>factor.
                      ebind (num_div A the_cfl factor) (\<lambda>new_delta_t.
                      Inr (self\<lparr> time_step_size := Some new_delta_t \<rparr>)))
                  | (None, None) \<Rightarrow> Inr self)))))))"

text \<open>
  Arithmetic on real numbers, exact: the reading of the formulas when rounding is left
  out. Division by zero and the root of a negative number raise, as in Python.
\<close>

definition real_arithmetic :: "real \<Rightarrow> (real \<Rightarrow> string) \<Rightarrow> real arithmetic" where
  "real_arithmetic c fmt =
     \<lparr> num_sub = (\<lambda>a b. Inr (a - b)),
       num_div = (\<lambda>a b. if b = 0 then Inl ZeroDivisionError else Inr (a / b)),
       num_pow2 = (\<lambda>a. Inr (a ^ 2)),
       num_add = (\<lambda>a b. Inr (a + b)),
       num_mul = (\<lambda>a b. Inr (a * b)),
       num_sqrt = (\<lambda>a. if a < 0 then Inl (ValueError ''math domain error'') else Inr (sqrt a)),
       num_ne = (\<lambda>a b. a \<noteq> b),
       num_one = 1,
       speed_of_light = c,
       num_format = fmt \<rparr>"

subsection \<open>Python floats\<close>

text \<open>
  A Python \<open>float\<close> is an IEEE 754 binary64 number: a finite value, an infinity or a
  NaN. The sign of a zero is left out; it decides no result here (a division by
  either zero raises). \<open>round_double\<close> is the rounding of the exact result of an
  operation to the nearest binary64 number, ties to the even significand: the
  exponent of \<open>x\<close> is \<open>\<lfloor>log 2 \<bar>x\<bar>\<rfloor>\<close>, not below \<open>-1022\<close>; the significand has 53 bits, so
  the spacing of the numbers around \<open>x\<close> is \<open>2\<close> to the exponent minus 52; a result at or
  beyond \<open>2 ^ 1024\<close> is an infinity.
\<close>

datatype pyfloat = Finite real | PosInf | NegInf | NaN

definition round_half_even :: "real \<Rightarrow> int" where
  "round_half_even x =
     (let f = \<lfloor>x\<rfloor>; r = x - of_int f in
      if r < 1 / 2 then f
      else if 1 / 2 < r then f + 1
      else if even f then f else f + 1)"

definition round_double :: "real \<Rightarrow> pyfloat" where
  "round_double x =
     (if x = 0 then Finite 0
      else
        (let e = max \<lfloor>log 2 \<bar>x\<bar>\<rfloor> (- 1022);
             ulp = 2 powi (e - 52);
             v = of_int (round_half_even (x / ulp)) * ulp
         in if 2 ^ 1024 \<le> \<bar>v\<bar> then (if 0 < x then PosInf else NegInf) else Finite v))"

text \<open>
  The operators of Python on floats: \<open>+\<close>, \<open>-\<close>, \<open>*\<close>, \<open>/\<close>, \<open>** 2\<close>, \<open>math.sqrt\<close> and \<open>!=\<close>.
  An overflow gives an infinity, except in \<open>**\<close>, which raises OverflowError; a
  division by zero raises ZeroDivisionError; the root of a negative number raises
  ValueError; a NaN differs from every float. The square \<open>x ** 2\<close> is taken as the
  rounded exact square.
\<close>

fun float_add :: "pyfloat \<Rightarrow> pyfloat \<Rightarrow> pyfloat" where
  "float_add (Finite a) (Finite b) = round_double (a + b)"
| "float_add NaN y = NaN"
| "float_add x NaN = NaN"
| "float_add PosInf NegInf = NaN"
| "float_add NegInf PosInf = NaN"
| "float_add PosInf y = PosInf"
| "float_add NegInf y = NegInf"
| "float_add x PosInf = PosInf"
| "float_add x NegInf = NegInf"

fun float_neg :: "pyfloat \<Rightarrow> pyfloat" where
  "float_neg (Finite a) = Finite (- a)"
| "float_neg PosInf = NegInf"
| "float_neg NegInf = PosInf"
| "float_neg NaN = NaN"

definition float_sub :: "pyfloat \<Rightarrow> pyfloat \<Rightarrow> pyfloat" where
  "float_sub x y = float_add x (float_neg y)"

fun float_sign :: "pyfloat \<Rightarrow> int" where
  "float_sign (Finite a) = (if a < 0 then - 1 else if a = 0 then 0 else 1)"
| "float_sign PosInf = 1"
| "float_sign NegInf = - 1"
| "float_sign NaN = 0"

definition signed_inf :: "int \<Rightarrow> pyfloat" where
  "signed_inf s = (if s = 0 then NaN else if 0 < s then PosInf else NegInf)"

fun float_mul :: "pyfloat \<Rightarrow> pyfloat \<Rightarrow> pyfloat" where
  "float_mul (Finite a) (Finite b) = round_double (a * b)"
| "float_mul NaN y = NaN"
| "float_mul x NaN = NaN"
| "float_mul x y = signed_inf (float_sign x * float_sign y)"

fun float_truediv :: "pyfloat \<Rightarrow> pyfloat \<Rightarrow> error + pyfloat" where
  "float_truediv x (Finite b) =
     (if b = 0 then Inl ZeroDivisionError
      else (case x of
              Finite a \<Rightarrow> Inr (round_double (a / b))
            | NaN \<Rightarrow> Inr NaN
            | _ \<Rightarrow> Inr (signed_inf (float_sign x * float_sign (Finite b)))))"
| "float_truediv x NaN = Inr NaN"
| "float_truediv NaN y = Inr NaN"
| "float_truediv (Finite a) y = Inr (Finite 0)"
| "float_truediv x y = Inr NaN"

fun float_pow2 :: "pyfloat \<Rightarrow> error + pyfloat" where
  "float_pow2 (Finite a) =
     (case round_double (a * a) of
        Finite v \<Rightarrow> Inr (Finite v)
      | _ \<Rightarrow> Inl OverflowError)"
| "float_pow2 NaN = Inr NaN"
| "float_pow2 x = Inr PosInf"

fun float_sqrt :: "pyfloat \<Rightarrow> error + pyfloat" where
  "float_sqrt (Finite a) =
     (if a < 0 then Inl (ValueError ''math domain error'') else Inr (round_double (sqrt a)))"
| "float_sqrt PosInf = Inr PosInf"
| "float_sqrt NegInf = Inl (ValueError ''math domain error'')"
| "float_sqrt NaN = Inr NaN"

fun float_ne :: "pyfloat \<Rightarrow> pyfloat \<Rightarrow> bool" where
  "float_ne NaN y = True"
| "float_ne x NaN = True"
| "float_ne x y = (x \<noteq> y)"

definition float_arithmetic :: "pyfloat \<Rightarrow> (pyfloat \<Rightarrow> string) \<Rightarrow> pyfloat arithmetic" where
  "float_arithmetic c fmt =
     \<lparr> num_sub = (\<lambda>a b. Inr (float_sub a b)),
       num_div = float_truediv,
       num_pow2 = float_pow2,
       num_add = (\<lambda>a b. Inr (float_add a b)),
       num_mul = (\<lambda>a b. Inr (float_mul a b)),
       num_sqrt = float_sqrt,
       num_ne = float_ne,
       num_one = Finite 1,
       speed_of_light = c,
       num_format = fmt \<rparr>"

subsection \<open>Notions used to state the properties\<close>

text \<open>A species that \<open>__resolve_electrons\<close> has to handle: it has ionizers and no donor yet.\<close>

definition unresolved :: "('n, 'p) simulation \<Rightarrow> ref \<Rightarrow> bool" where
  "unresolved sim r \<longleftrightarrow>
     ionizers (heap sim r) \<and> picongpu_ionization_electrons (heap sim r) = None"

text \<open>The heap in which every such species of a set \<open>S\<close> has received the donor \<open>e\<close>.\<close>

definition resolved_heap ::
  "ref \<Rightarrow> ref set \<Rightarrow> (ref \<Rightarrow> ('n, 'p) picmi_species) \<Rightarrow> ref \<Rightarrow> ('n, 'p) picmi_species" where
  "resolved_heap e S h =
     (\<lambda>r. if r \<in> S \<and> ionizers (h r) \<and> picongpu_ionization_electrons (h r) = None
          then (h r)\<lparr> picongpu_ionization_electrons := Some e \<rparr> else h r)"

text \<open>The ionization models of a translated species, all linked to the translated species \<open>t\<close>.\<close>

definition link_models :: "pref \<Rightarrow> ionization_model list \<Rightarrow> ionization_model list" where
  "link_models t ms = map (\<lambda>model. model\<lparr> ionization_electron_species := Some t \<rparr>) ms"

text \<open>
  The species that have both a layout and a profile, each with its layout and its
  profile, in the order of the simulation; the members of the group of a pair; and the
  notions that describe the nested dictionaries while they are built.
\<close>

definition placed ::
  "(ref \<Rightarrow> ('n, 'p) picmi_species) \<Rightarrow> (ref \<times> layout option) list \<Rightarrow> (ref \<times> layout \<times> 'p) list" where
  "placed h items =
     concat (map (\<lambda>(s, lo). case lo of None \<Rightarrow> []
                    | Some l \<Rightarrow> (case initial_distribution (h s) of None \<Rightarrow> [] | Some p \<Rightarrow> [(s, l, p)]))
             items)"

definition members :: "(ref \<times> layout \<times> 'p) list \<Rightarrow> layout \<Rightarrow> 'p \<Rightarrow> ref list" where
  "members pl l p = map fst (filter (\<lambda>(s, l', p'). l' = l \<and> p' = p) pl)"

definition lookup2 :: "'p species_by_profile_by_layout \<Rightarrow> layout \<Rightarrow> 'p \<Rightarrow> ref list" where
  "lookup2 d l p =
     (case map_of d l of None \<Rightarrow> []
      | Some bp \<Rightarrow> (case map_of bp p of None \<Rightarrow> [] | Some xs \<Rightarrow> xs))"

definition wf_groups :: "'p species_by_profile_by_layout \<Rightarrow> bool" where
  "wf_groups d \<longleftrightarrow>
     distinct (map fst d) \<and>
     (\<forall>(l, bp) \<in> set d. distinct (map fst bp) \<and> (\<forall>(p, xs) \<in> set bp. xs \<noteq> []))"

definition group_key :: "layout \<times> 'p \<times> ref list \<Rightarrow> layout \<times> 'p" where
  "group_key item = (case item of (l, p, xs) \<Rightarrow> (l, p))"

section \<open>Example simulations\<close>

definition ex_constants :: "int constants" where
  "ex_constants = \<lparr> isclose_m_e = (\<lambda>m. m = 9), isclose_minus_q_e = (\<lambda>q. q = - 1) \<rparr>"

definition ex_species :: "string \<Rightarrow> string option \<Rightarrow> int option \<Rightarrow> int option \<Rightarrow> bool \<Rightarrow>
    (int, nat) picmi_species" where
  "ex_species n t m q i =
     \<lparr> name = n, particle_type = t, mass = m, charge = q, initial_distribution = None,
       density_scale = None, picongpu_ionization_electrons = None, ionizers = i \<rparr>"

definition ex_heap :: "(int, nat) picmi_species list \<Rightarrow> ref \<Rightarrow> (int, nat) picmi_species" where
  "ex_heap objs r = (if ref_index r < length objs then objs ! ref_index r
                     else ex_species [] None None None False)"

definition ex_simulation :: "(int, nat) picmi_species list \<Rightarrow> (int, nat) simulation" where
  "ex_simulation objs =
     \<lparr> heap = ex_heap objs, next_ref = length objs,
       species = map Ref [0..<length objs], layouts = replicate (length objs) None,
       electron_species = None, logging_info = [] \<rparr>"

definition ex_two_electrons :: "(int, nat) simulation" where
  "ex_two_electrons = ex_simulation
     [ex_species ''e1'' (Some ''electron'') None None False,
      ex_species ''N'' None (Some 25000) (Some 0) True,
      ex_species ''e2'' None (Some 9) (Some (- 1)) False]"

definition ex_no_electrons :: "(int, nat) simulation" where
  "ex_no_electrons = ex_simulation
     [ex_species ''N'' None (Some 25000) (Some 0) True,
      ex_species ''e'' None (Some 1836) (Some 1) False]"

definition ex_created :: "(int, nat) simulation" where
  "ex_created = ex_no_electrons
     \<lparr> heap := (heap ex_no_electrons)
                 (Ref 2 := ex_species ''e_'' (Some ''electron'') None None False),
       next_ref := 3,
       species := [Ref 0, Ref 1, Ref 2],
       layouts := [None, None, None],
       electron_species := Some (Ref 2),
       logging_info :=
         [''no electron species for ionization available, creating electrons with name: e_''] \<rparr>"

definition ex_ions :: "(int, nat) simulation" where
  "ex_ions = ex_simulation
     [ex_species ''N'' None (Some 25000) (Some 0) True,
      (ex_species ''He'' None (Some 7000) (Some 0) True)
         \<lparr> picongpu_ionization_electrons := Some (Ref 3) \<rparr>,
      ex_species ''e1'' (Some ''electron'') None None False,
      ex_species ''H'' None (Some 1836) (Some 1) False]"

definition ex_lazy :: "(int, nat) simulation" where
  "ex_lazy = ex_simulation
     [ex_species ''e1'' (Some ''electron'') None None False,
      ex_species ''N'' None (Some 25000) (Some 0) False,
      ex_species ''e2'' None (Some 9) (Some (- 1)) False]"

definition ex_donor_heap :: "ref \<Rightarrow> (int, nat) picmi_species" where
  "ex_donor_heap = ex_heap
     [(ex_species ''N'' None (Some 25000) (Some 0) True)
         \<lparr> picongpu_ionization_electrons := Some (Ref 1) \<rparr>,
      ex_species ''e'' (Some ''electron'') None None False]"

definition ex_pypic_heap :: "pref \<Rightarrow> pypic_species" where
  "ex_pypic_heap q =
     (if q = PRef 0 then
        \<lparr> pypic_name = ''N'', ground_state_ionization = Some
           [\<lparr> ionization_model_name = ''ADK'', ionization_electron_species = None \<rparr>,
            \<lparr> ionization_model_name = ''BSI'', ionization_electron_species = None \<rparr>] \<rparr>
      else \<lparr> pypic_name = ''e'', ground_state_ionization = None \<rparr>)"

definition ex_profiles :: "ref \<Rightarrow> (int, nat) picmi_species" where
  "ex_profiles = ex_heap
     [(ex_species ''A'' None None None False)\<lparr> initial_distribution := Some 7 \<rparr>,
      (ex_species ''B'' None None None False)\<lparr> initial_distribution := Some 7 \<rparr>,
      (ex_species ''C'' None None None False)\<lparr> initial_distribution := Some 7 \<rparr>,
      (ex_species ''D'' None None None False)\<lparr> initial_distribution := Some 8 \<rparr>,
      ex_species ''E'' None None None False]"

definition ex_layouts :: "layout option list" where
  "ex_layouts =
     [Some (PseudoRandomLayout 2), Some (PseudoRandomLayout 2), Some (PseudoRandomLayout 4),
      Some (PseudoRandomLayout 2), None]"

definition ex_dict :: species_dict where
  "ex_dict = [(Ref 0, PRef 10), (Ref 1, PRef 11), (Ref 2, PRef 12), (Ref 3, PRef 13),
              (Ref 4, PRef 14)]"

definition ex_tr :: "nat \<Rightarrow> error + nat" where
  "ex_tr p = Inr (100 + p)"

definition ex_ops :: "nat simple_density list" where
  "ex_ops =
     [\<lparr> ppc = 2, op_profile = 107, op_species = {PRef 10, PRef 11} \<rparr>,
      \<lparr> ppc = 2, op_profile = 108, op_species = {PRef 13} \<rparr>,
      \<lparr> ppc = 4, op_profile = 107, op_species = {PRef 12} \<rparr>]"

definition ex_collaborators :: "(int, nat, nat, nat) collaborators" where
  "ex_collaborators =
     \<lparr> species_get_as_pypicongpu = (\<lambda>h r. Inr \<lparr> pypic_name = name (h r),
           ground_state_ionization =
             (if ionizers (h r)
              then Some [\<lparr> ionization_model_name = ''ADK'', ionization_electron_species = None \<rparr>]
              else None) \<rparr>),
       profile_get_as_pypicongpu = ex_tr,
       get_independent_operations = (\<lambda>h r q. Inr [ref_index r]),
       solver_get_as_pypicongpu = (\<lambda>s. Inr (PypicSolver 0)),
       grid_get_as_pypicongpu = (\<lambda>g. Inr (PypicGrid 0)),
       laser_get_as_pypicongpu = (\<lambda>l. Inr (PypicLaser 0)),
       typical_ppc_without_counts = Inr 1,
       number_divide = (\<lambda>a b. if b = 0 then Inl ZeroDivisionError else Inr (a div b)) \<rparr>"

definition ex_attributes :: "int attributes" where
  "ex_attributes =
     \<lparr> time_step_size = None,
       solver = Some \<lparr> solver_method = ''Yee'', cfl = None,
                       grid = Cartesian3DGrid (0, 0, 0) (1, 1, 1) (2, 2, 2) \<rparr>,
       max_steps = Some 100, max_time = None, verbose = None, particle_shape = ''linear'',
       gamma_boost = None, laser_injection_methods = [], lasers = [],
       picongpu_typical_ppc = None, picongpu_moving_window_move_point = None,
       picongpu_moving_window_stop_iteration = None, picongpu_custom_user_input = None \<rparr>"

definition ex_plasma :: "(int, nat) simulation" where
  "ex_plasma =
     \<lparr> heap = ex_profiles, next_ref = 5, species = map Ref [0..<5], layouts = ex_layouts,
       electron_species = None, logging_info = [] \<rparr>"

definition ex_store :: pypic_store where
  "ex_store =
     \<lparr> pypic_heap = (\<lambda>q. \<lparr> pypic_name = [], ground_state_ionization = None \<rparr>),
       pypic_next = 10 \<rparr>"

definition ex_translated :: pypic_store where
  "ex_translated =
     \<lparr> pypic_heap = (\<lambda>q. \<lparr> pypic_name =
               (if q = PRef 10 then ''A'' else if q = PRef 11 then ''B''
                else if q = PRef 12 then ''C'' else if q = PRef 13 then ''D''
                else if q = PRef 14 then ''E'' else []),
             ground_state_ionization = None \<rparr>),
       pypic_next = 15 \<rparr>"

definition ex_initmgr :: "(nat, nat) init_manager" where
  "ex_initmgr =
     \<lparr> all_species = [PRef 10, PRef 11, PRef 12, PRef 13, PRef 14],
       all_operations = map SimpleDensity ex_ops @ [NotPlaced (PRef 14)] @
                        map Independent [0, 1, 2, 3, 4] \<rparr>"

text \<open>
  A grid with the bounds 0 and 1 on every axis and 2, 2 and 1 cells: the spacings are
  0.5, 0.5 and 1, the sum of their inverse squares is 9, and with the speed of light
  299792458 the factor between time step and CFL parameter is 899377374. In the
  float example the CFL parameter is 0.8828125 and the time step is the float
  0x1.0dd0ae7ba59b8p-30 (printed 9.815818426403954e-10), the quotient of the two
  as Python computes it.
\<close>

definition ex_attributes_of :: "'n option \<Rightarrow> 'n option \<Rightarrow> 'n grid \<Rightarrow> 'n attributes" where
  "ex_attributes_of dt the_cfl g =
     \<lparr> time_step_size = dt,
       solver = Some \<lparr> solver_method = ''Yee'', cfl = the_cfl, grid = g \<rparr>,
       max_steps = None, max_time = None, verbose = None, particle_shape = ''linear'',
       gamma_boost = None, laser_injection_methods = [], lasers = [],
       picongpu_typical_ppc = None, picongpu_moving_window_move_point = None,
       picongpu_moving_window_stop_iteration = None, picongpu_custom_user_input = None \<rparr>"

definition ex_float_arithmetic :: "pyfloat arithmetic" where
  "ex_float_arithmetic = float_arithmetic (Finite 299792458) (\<lambda>x. ''float'')"

definition ex_float_grid :: "pyfloat grid" where
  "ex_float_grid =
     Cartesian3DGrid (Finite 0, Finite 0, Finite 0) (Finite 1, Finite 1, Finite 1)
       (Finite 2, Finite 2, Finite 1)"

definition ex_delta_t :: pyfloat where
  "ex_delta_t = Finite (4746638534531512 * 2 powi (- 82))"

definition ex_float_attributes :: "pyfloat attributes" where
  "ex_float_attributes =
     ex_attributes_of (Some ex_delta_t) (Some (Finite (113 / 128))) ex_float_grid"





section \<open>Properties of the electron resolver\<close>

lemma upt_3: "[0..<3] = [0, 1, 2]"
  by (simp add: upt_rec)

lemma upt_2: "[0..<2] = [0, 1]"
  by (simp add: upt_rec)

lemma upt_4: "[0..<4] = [0, 1, 2, 3]"
  by (simp add: upt_rec)

lemmas ex_defs = ex_simulation_def ex_heap_def ex_species_def ex_constants_def

lemma is_electron_iff:
  "is_electron K s \<longleftrightarrow>
     particle_type s = Some ''electron'' \<or>
     (\<exists>m q. mass s = Some m \<and> isclose_m_e K m \<and> charge s = Some q \<and> isclose_minus_q_e K q)"
  by (auto simp: is_electron_def split: option.splits)

lemma electrons_name_loop_result:
  "\<exists>k. electrons_name_loop ns n = n @ replicate k CHR ''_'' \<and>
       n @ replicate k CHR ''_'' \<notin> set ns \<and>
       (\<forall>j<k. n @ replicate j CHR ''_'' \<in> set ns)"
proof (induction ns n rule: electrons_name_loop.induct)
  case (1 ns n)
  show ?case
  proof (cases "n \<in> set ns")
    case False
    then have "electrons_name_loop ns n = n @ replicate 0 CHR ''_''"
      by (simp add: electrons_name_loop.simps)
    with False show ?thesis
      by (intro exI [of _ 0]) simp
  next
    case True
    from 1 [OF True] obtain k where
      k: "electrons_name_loop ns (n @ ''_'') = (n @ ''_'') @ replicate k CHR ''_''"
         "(n @ ''_'') @ replicate k CHR ''_'' \<notin> set ns"
         "\<forall>j<k. (n @ ''_'') @ replicate j CHR ''_'' \<in> set ns"
      by blast
    have app: "(n @ ''_'') @ replicate j CHR ''_'' = n @ replicate (Suc j) CHR ''_''" for j
      by simp
    have "electrons_name_loop ns n = n @ replicate (Suc k) CHR ''_''"
      using True k(1) by (subst electrons_name_loop.simps) (simp only: app if_True)
    moreover have "n @ replicate (Suc k) CHR ''_'' \<notin> set ns"
      using k(2) unfolding app .
    moreover have "\<forall>j<Suc k. n @ replicate j CHR ''_'' \<in> set ns"
    proof (intro allI impI)
      fix j assume "j < Suc k"
      show "n @ replicate j CHR ''_'' \<in> set ns"
      proof (cases j)
        case 0
        with True show ?thesis by simp
      next
        case (Suc j')
        with \<open>j < Suc k\<close> have "j' < k" by simp
        with k(3) have "(n @ ''_'') @ replicate j' CHR ''_'' \<in> set ns" by blast
        then show ?thesis unfolding Suc by (simp only: app)
      qed
    qed
    ultimately show ?thesis by blast
  qed
qed

text \<open>
  C3. With no electron species cached and two or more electron-like entries among
  the species of the simulation (tagged \<open>"electron"\<close>, or with mass and charge close
  to those of the electron, see \<open>is_electron_iff\<close>), \<open>__get_electron_species\<close>
  raises the ValueError whose message ends with the names of all electron-like
  species joined by \<open>", "\<close>, whatever the other species are, and the simulation is
  left as it was: nothing is added to it.
\<close>

theorem get_electron_species_ambiguous:
  assumes "electron_species sim = None"
    and "2 \<le> length (filter (\<lambda>r. is_electron K (heap sim r)) (species sim))"
  shows "get_electron_species K sim =
           (Inl (ValueError (ambiguous_message @
              join '', '' (map (\<lambda>r. name (heap sim r))
                (filter (\<lambda>r. is_electron K (heap sim r)) (species sim))))), sim)"
proof -
  let ?all_electrons = "filter (\<lambda>r. is_electron K (heap sim r)) (species sim)"
  have "1 \<noteq> length ?all_electrons" and "0 \<noteq> length ?all_electrons"
    using assms(2) by auto
  then show ?thesis
    using assms(1) by (simp add: get_electron_species_def Let_def)
qed

theorem get_electron_species_ambiguous_witness:
  "electron_species ex_two_electrons = None \<and>
   2 \<le> length (filter (\<lambda>r. is_electron ex_constants (heap ex_two_electrons r))
                  (species ex_two_electrons)) \<and>
   get_electron_species ex_constants ex_two_electrons =
     (Inl (ValueError (ambiguous_message @ ''e1, e2'')), ex_two_electrons)"
  using get_electron_species_ambiguous [of ex_two_electrons ex_constants]
  by (simp add: ex_two_electrons_def ex_simulation_def ex_heap_def ex_species_def
        ex_constants_def is_electron_def upt_3)

lemma ex_no_electrons_created:
  "get_electron_species ex_constants ex_no_electrons = (Inr (Ref 2), ex_created)"
  by (simp add: get_electron_species_def ex_no_electrons_def ex_created_def ex_simulation_def
        ex_heap_def ex_species_def ex_constants_def is_electron_def upt_2 Let_def
        add_species_def electrons_name_loop.simps numeral_2_eq_2 numeral_3_eq_3
        new_electrons_def created_message_def)

text \<open>
  C4. With no electron species cached and no electron-like species in the simulation,
  \<open>__get_electron_species\<close> creates one species and returns it. The new object is
  none of the species already there. Its name is \<open>"e"\<close> followed by \<open>k\<close> underscores,
  where \<open>k\<close> is the least number for which that name is no name of a species of the
  simulation; this determines the name from the names alone. Its particle type is
  \<open>"electron"\<close>, and its other attributes have their defaults: no mass, charge, profile,
  density scale or donor, and no ionizers. It is appended to the species with the
  layout \<open>None\<close> and cached, and the notice with its name is logged. Nothing else
  changes.
\<close>

theorem get_electron_species_creates:
  assumes "electron_species sim = None"
    and "filter (\<lambda>r. is_electron K (heap sim r)) (species sim) = []"
    and "wf_simulation sim"
  shows "\<exists>k. ''e'' @ replicate k CHR ''_'' \<notin> set (map (\<lambda>r. name (heap sim r)) (species sim)) \<and>
             (\<forall>j<k. ''e'' @ replicate j CHR ''_'' \<in> set (map (\<lambda>r. name (heap sim r)) (species sim))) \<and>
             Ref (next_ref sim) \<notin> set (species sim) \<and>
             get_electron_species K sim =
               (Inr (Ref (next_ref sim)),
                sim\<lparr> heap := (heap sim)(Ref (next_ref sim) :=
                                \<lparr> name = ''e'' @ replicate k CHR ''_'',
                                  particle_type = Some ''electron'',
                                  mass = None, charge = None, initial_distribution = None,
                                  density_scale = None, picongpu_ionization_electrons = None,
                                  ionizers = False \<rparr>),
                     next_ref := Suc (next_ref sim),
                     species := species sim @ [Ref (next_ref sim)],
                     layouts := layouts sim @ [None],
                     electron_species := Some (Ref (next_ref sim)),
                     logging_info := logging_info sim @
                       [''no electron species for ionization available, '' @
                        ''creating electrons with name: '' @
                        ''e'' @ replicate k CHR ''_''] \<rparr>)"
proof -
  let ?names = "map (\<lambda>r. name (heap sim r)) (species sim)"
  obtain k where
    k: "electrons_name_loop ?names ''e'' = ''e'' @ replicate k CHR ''_''"
       "''e'' @ replicate k CHR ''_'' \<notin> set ?names"
       "\<forall>j<k. ''e'' @ replicate j CHR ''_'' \<in> set ?names"
    using electrons_name_loop_result [of ?names "''e''"] by blast
  have fresh: "Ref (next_ref sim) \<notin> set (species sim)"
  proof
    assume "Ref (next_ref sim) \<in> set (species sim)"
    with assms(3) have "allocated sim (Ref (next_ref sim))"
      by (simp add: wf_simulation_def list_all_iff)
    then show False by (simp add: allocated_def)
  qed
  have "get_electron_species K sim =
          (Inr (Ref (next_ref sim)),
           sim\<lparr> heap := (heap sim)(Ref (next_ref sim) :=
                           \<lparr> name = ''e'' @ replicate k CHR ''_'',
                             particle_type = Some ''electron'',
                             mass = None, charge = None, initial_distribution = None,
                             density_scale = None, picongpu_ionization_electrons = None,
                             ionizers = False \<rparr>),
                next_ref := Suc (next_ref sim),
                species := species sim @ [Ref (next_ref sim)],
                layouts := layouts sim @ [None],
                electron_species := Some (Ref (next_ref sim)),
                logging_info := logging_info sim @
                  [''no electron species for ionization available, '' @
                   ''creating electrons with name: '' @
                   ''e'' @ replicate k CHR ''_''] \<rparr>)"
    using assms(1,2) k(1)
    by (simp add: get_electron_species_def Let_def add_species_def new_electrons_def
          created_message_def)
  with k(2,3) fresh show ?thesis by blast
qed

theorem get_electron_species_creates_witness:
  "electron_species ex_no_electrons = None \<and>
   filter (\<lambda>r. is_electron ex_constants (heap ex_no_electrons r)) (species ex_no_electrons) = [] \<and>
   wf_simulation ex_no_electrons \<and>
   map (\<lambda>r. name (heap ex_no_electrons r)) (species ex_no_electrons) = [''N'', ''e''] \<and>
   get_electron_species ex_constants ex_no_electrons = (Inr (Ref 2), ex_created) \<and>
   heap ex_created (Ref 2) =
     \<lparr> name = ''e_'', particle_type = Some ''electron'', mass = None, charge = None,
       initial_distribution = None, density_scale = None,
       picongpu_ionization_electrons = None, ionizers = False \<rparr> \<and>
   heap ex_created (Ref 0) = heap ex_no_electrons (Ref 0) \<and>
   heap ex_created (Ref 1) = heap ex_no_electrons (Ref 1) \<and>
   species ex_created = [Ref 0, Ref 1, Ref 2] \<and>
   layouts ex_created = [None, None, None] \<and>
   electron_species ex_created = Some (Ref 2) \<and>
   logging_info ex_created =
     [''no electron species for ionization available, creating electrons with name: e_''] \<and>
   (\<exists>k. ''e'' @ replicate k CHR ''_'' \<notin> set [''N'', ''e''] \<and>
        (\<forall>j<k. ''e'' @ replicate j CHR ''_'' \<in> set [''N'', ''e'']) \<and>
        ex_created = ex_no_electrons
          \<lparr> heap := (heap ex_no_electrons)(Ref 2 :=
                      \<lparr> name = ''e'' @ replicate k CHR ''_'',
                        particle_type = Some ''electron'',
                        mass = None, charge = None, initial_distribution = None,
                        density_scale = None, picongpu_ionization_electrons = None,
                        ionizers = False \<rparr>),
            next_ref := 3,
            species := species ex_no_electrons @ [Ref 2],
            layouts := layouts ex_no_electrons @ [None],
            electron_species := Some (Ref 2),
            logging_info := logging_info ex_no_electrons @
              [''no electron species for ionization available, '' @
               ''creating electrons with name: '' @
               ''e'' @ replicate k CHR ''_''] \<rparr>)"
proof -
  have h1: "electron_species ex_no_electrons = None"
    by (simp add: ex_no_electrons_def ex_simulation_def)
  have h2: "filter (\<lambda>r. is_electron ex_constants (heap ex_no_electrons r))
              (species ex_no_electrons) = []"
    by (simp add: ex_no_electrons_def ex_simulation_def ex_heap_def ex_species_def
          ex_constants_def is_electron_def upt_2)
  have h3: "wf_simulation ex_no_electrons"
    by (simp add: wf_simulation_def allocated_def ex_no_electrons_def ex_simulation_def upt_2)
  have names: "map (\<lambda>r. name (heap ex_no_electrons r)) (species ex_no_electrons) = [''N'', ''e'']"
    by (simp add: ex_no_electrons_def ex_simulation_def ex_heap_def ex_species_def upt_2)
  have n: "next_ref ex_no_electrons = 2"
    by (simp add: ex_no_electrons_def ex_simulation_def)
  have parts: "heap ex_created (Ref 2) =
     \<lparr> name = ''e_'', particle_type = Some ''electron'', mass = None, charge = None,
       initial_distribution = None, density_scale = None,
       picongpu_ionization_electrons = None, ionizers = False \<rparr>"
    "heap ex_created (Ref 0) = heap ex_no_electrons (Ref 0)"
    "heap ex_created (Ref 1) = heap ex_no_electrons (Ref 1)"
    "species ex_created = [Ref 0, Ref 1, Ref 2]"
    "layouts ex_created = [None, None, None]"
    "electron_species ex_created = Some (Ref 2)"
    "logging_info ex_created =
       [''no electron species for ionization available, creating electrons with name: e_'']"
    by (simp_all add: ex_created_def ex_species_def)
  have "\<exists>k. ''e'' @ replicate k CHR ''_'' \<notin> set [''N'', ''e''] \<and>
        (\<forall>j<k. ''e'' @ replicate j CHR ''_'' \<in> set [''N'', ''e'']) \<and>
        ex_created = ex_no_electrons
          \<lparr> heap := (heap ex_no_electrons)(Ref 2 :=
                      \<lparr> name = ''e'' @ replicate k CHR ''_'',
                        particle_type = Some ''electron'',
                        mass = None, charge = None, initial_distribution = None,
                        density_scale = None, picongpu_ionization_electrons = None,
                        ionizers = False \<rparr>),
            next_ref := 3,
            species := species ex_no_electrons @ [Ref 2],
            layouts := layouts ex_no_electrons @ [None],
            electron_species := Some (Ref 2),
            logging_info := logging_info ex_no_electrons @
              [''no electron species for ionization available, '' @
               ''creating electrons with name: '' @
               ''e'' @ replicate k CHR ''_''] \<rparr>"
    using get_electron_species_creates [OF h1 h2 h3] ex_no_electrons_created
    unfolding names n
    by (auto simp: numeral_3_eq_3 numeral_2_eq_2)
  with h1 h2 h3 names ex_no_electrons_created parts show ?thesis
    by (simp only: simp_thms)
qed

text \<open>
  C5. Once a call of \<open>__get_electron_species\<close> has returned a species, every later call
  on a simulation that still holds the cached reference returns that same reference and
  changes nothing: the species are not classified again (the result does not depend on
  them) and no further species is created.
\<close>

theorem get_electron_species_cached:
  assumes "get_electron_species K sim = (Inr e, sim')"
    and "electron_species sim'' = electron_species sim'"
  shows "get_electron_species K sim'' = (Inr e, sim'')"
proof -
  have "electron_species sim' = Some e"
    using assms(1)
    by (auto simp: get_electron_species_def Let_def add_species_def
             split: option.splits if_splits)
  with assms(2) show ?thesis
    by (simp add: get_electron_species_def)
qed

theorem get_electron_species_cached_witness:
  "get_electron_species ex_constants ex_no_electrons = (Inr (Ref 2), ex_created) \<and>
   electron_species (add_species (Ref 0) None ex_created) = electron_species ex_created \<and>
   get_electron_species ex_constants (add_species (Ref 0) None ex_created) =
     (Inr (Ref 2), add_species (Ref 0) None ex_created)"
proof -
  have same: "electron_species (add_species (Ref 0) None ex_created) = electron_species ex_created"
    by (simp add: add_species_def)
  show ?thesis
    using get_electron_species_cached [OF ex_no_electrons_created same]
      ex_no_electrons_created same
    by simp
qed

section \<open>Properties of the donor resolution\<close>

lemma resolve_electrons_loop_nothing:
  "list_all (\<lambda>r. \<not> unresolved sim r) (drop i (species sim)) \<Longrightarrow>
   resolve_electrons_loop K i sim = (Inr (), sim)"
proof (induction "length (species sim) - i" arbitrary: i)
  case 0
  then show ?case
    by (simp add: resolve_electrons_loop.simps [of K i sim])
next
  case (Suc n)
  then have lt: "i < length (species sim)" by simp
  then have d: "drop i (species sim) = species sim ! i # drop (Suc i) (species sim)"
    by (simp add: Cons_nth_drop_Suc)
  from Suc.prems d have here: "\<not> unresolved sim (species sim ! i)"
    and rest: "list_all (\<lambda>r. \<not> unresolved sim r) (drop (Suc i) (species sim))"
    by simp_all
  have "n = length (species sim) - Suc i"
    using Suc.hyps(2) by simp
  from Suc.hyps(1) [OF this rest]
  have "resolve_electrons_loop K (Suc i) sim = (Inr (), sim)" .
  with lt here show ?case
    by (subst resolve_electrons_loop.simps) (auto simp: unresolved_def Let_def)
qed

text \<open>
  C10. When no species of the simulation has ionizers together with an unset donor
  reference, \<open>__resolve_electrons\<close> returns without an error and leaves the whole
  simulation as it is (species, layouts, heap, cache and log): the electron species is
  never asked for, whatever electron-like species there are.
\<close>

theorem resolve_electrons_lazy:
  assumes "\<forall>r \<in> set (species sim).
             \<not> (ionizers (heap sim r) \<and> picongpu_ionization_electrons (heap sim r) = None)"
  shows "resolve_electrons K sim = (Inr (), sim)"
proof -
  have "list_all (\<lambda>r. \<not> unresolved sim r) (drop 0 (species sim))"
    using assms by (simp add: list_all_iff unresolved_def)
  then show ?thesis
    unfolding resolve_electrons_def by (rule resolve_electrons_loop_nothing)
qed

theorem resolve_electrons_lazy_witness:
  "resolve_electrons ex_constants ex_lazy = (Inr (), ex_lazy) \<and>
   get_electron_species ex_constants ex_lazy =
     (Inl (ValueError (ambiguous_message @ ''e1, e2'')), ex_lazy) \<and>
   resolve_electrons ex_constants (ex_lazy\<lparr> species := [Ref 1], layouts := [None] \<rparr>) =
     (Inr (), ex_lazy\<lparr> species := [Ref 1], layouts := [None] \<rparr>)"
proof -
  have "\<forall>r \<in> set (species ex_lazy).
          \<not> (ionizers (heap ex_lazy r) \<and> picongpu_ionization_electrons (heap ex_lazy r) = None)"
    by (simp add: ex_lazy_def ex_defs upt_3)
  from resolve_electrons_lazy [OF this, of ex_constants]
  have 1: "resolve_electrons ex_constants ex_lazy = (Inr (), ex_lazy)" .
  have 2: "get_electron_species ex_constants ex_lazy =
            (Inl (ValueError (ambiguous_message @ ''e1, e2'')), ex_lazy)"
    by (simp add: get_electron_species_def ex_lazy_def ex_defs is_electron_def upt_3 Let_def)
  have "\<forall>r \<in> set (species (ex_lazy\<lparr> species := [Ref 1], layouts := [None] \<rparr>)).
          \<not> (ionizers (heap (ex_lazy\<lparr> species := [Ref 1], layouts := [None] \<rparr>) r) \<and>
             picongpu_ionization_electrons
               (heap (ex_lazy\<lparr> species := [Ref 1], layouts := [None] \<rparr>) r) = None)"
    by (simp add: ex_lazy_def ex_defs)
  from resolve_electrons_lazy [OF this, of ex_constants] 1 2
  show ?thesis by simp
qed

lemma resolved_heap_skip:
  "\<not> (ionizers (h r) \<and> picongpu_ionization_electrons (h r) = None) \<Longrightarrow>
   resolved_heap e (insert r S) h = resolved_heap e S h"
  by (auto simp: resolved_heap_def fun_eq_iff)

lemma resolved_heap_step:
  "ionizers (h r) \<Longrightarrow> picongpu_ionization_electrons (h r) = None \<Longrightarrow>
   resolved_heap e S (h(r := (h r)\<lparr> picongpu_ionization_electrons := Some e \<rparr>)) =
   resolved_heap e (insert r S) h"
  by (auto simp: resolved_heap_def fun_eq_iff)

lemma resolve_electrons_loop_cached:
  "electron_species sim = Some e \<Longrightarrow>
   resolve_electrons_loop K i sim =
     (Inr (), sim\<lparr> heap := resolved_heap e (set (drop i (species sim))) (heap sim) \<rparr>)"
proof (induction "length (species sim) - i" arbitrary: i sim)
  case 0
  then have "resolved_heap e (set (drop i (species sim))) (heap sim) = heap sim"
    by (simp add: resolved_heap_def)
  with 0 show ?case
    by (simp add: resolve_electrons_loop.simps [of K i sim])
next
  case (Suc n)
  let ?r = "species sim ! i"
  from Suc.hyps(2) have lt: "i < length (species sim)" by simp
  then have d: "set (drop i (species sim)) = insert ?r (set (drop (Suc i) (species sim)))"
    by (simp add: Cons_nth_drop_Suc [symmetric])
  have n: "n = length (species sim) - Suc i"
    using Suc.hyps(2) by simp
  show ?case
  proof (cases "ionizers (heap sim ?r) \<and> picongpu_ionization_electrons (heap sim ?r) = None")
    case False
    from Suc.hyps(1) [OF n Suc.prems]
    have "resolve_electrons_loop K (Suc i) sim =
            (Inr (), sim\<lparr> heap := resolved_heap e (set (drop (Suc i) (species sim))) (heap sim) \<rparr>)" .
    moreover have "resolve_electrons_loop K i sim = resolve_electrons_loop K (Suc i) sim"
      using lt False by (subst resolve_electrons_loop.simps) (auto simp: Let_def)
    ultimately show ?thesis
      using False by (simp add: d resolved_heap_skip)
  next
    case True
    let ?sim2 = "sim\<lparr> heap := (heap sim)(?r :=
                   (heap sim ?r)\<lparr> picongpu_ionization_electrons := Some e \<rparr>) \<rparr>"
    have g: "get_electron_species K sim = (Inr e, sim)"
      using Suc.prems by (simp add: get_electron_species_def)
    have step: "resolve_electrons_loop K i sim = resolve_electrons_loop K (Suc i) ?sim2"
      using lt True g by (subst resolve_electrons_loop.simps) (simp add: Let_def)
    have "n = length (species ?sim2) - Suc i" and "electron_species ?sim2 = Some e"
      using n Suc.prems by simp_all
    from Suc.hyps(1) [OF this]
    have "resolve_electrons_loop K (Suc i) ?sim2 =
            (Inr (), ?sim2\<lparr> heap := resolved_heap e (set (drop (Suc i) (species ?sim2)))
                                          (heap ?sim2) \<rparr>)" .
    with step True show ?thesis
      by (simp add: d resolved_heap_step)
  qed
qed

lemma resolve_electrons_loop_skip:
  "list_all (\<lambda>r. \<not> unresolved sim r) (take j (drop i (species sim))) \<Longrightarrow>
   i + j \<le> length (species sim) \<Longrightarrow>
   resolve_electrons_loop K i sim = resolve_electrons_loop K (i + j) sim"
proof (induction j arbitrary: i)
  case 0
  then show ?case by simp
next
  case (Suc j)
  then have lt: "i < length (species sim)" by simp
  then have d: "drop i (species sim) = species sim ! i # drop (Suc i) (species sim)"
    by (simp add: Cons_nth_drop_Suc)
  from Suc.prems(1) d have here: "\<not> unresolved sim (species sim ! i)"
    and rest: "list_all (\<lambda>r. \<not> unresolved sim r) (take j (drop (Suc i) (species sim)))"
    by simp_all
  have "resolve_electrons_loop K (Suc i) sim = resolve_electrons_loop K (Suc i + j) sim"
    using Suc.prems(2) by (intro Suc.IH [OF rest]) simp
  moreover have "resolve_electrons_loop K i sim = resolve_electrons_loop K (Suc i) sim"
    using lt here by (subst resolve_electrons_loop.simps) (auto simp: unresolved_def Let_def)
  ultimately show ?case by simp
qed

lemma get_electron_species_result:
  assumes "get_electron_species K sim = (Inr e, sim1)"
  shows "electron_species sim1 = Some e"
    and "(heap sim1 = heap sim \<and> species sim1 = species sim) \<or>
         (\<exists>nm. heap sim1 = (heap sim)(Ref (next_ref sim) := new_electrons nm) \<and>
               species sim1 = species sim @ [Ref (next_ref sim)])"
  using assms
  by (auto simp: get_electron_species_def Let_def add_species_def
           split: option.splits if_splits)

lemma first_unresolved:
  "\<not> list_all (\<lambda>r. \<not> unresolved sim r) xs \<Longrightarrow>
   \<exists>j<length xs. unresolved sim (xs ! j) \<and> list_all (\<lambda>r. \<not> unresolved sim r) (take j xs)"
proof (induction xs)
  case Nil
  then show ?case by simp
next
  case (Cons x xs)
  show ?case
  proof (cases "unresolved sim x")
    case True
    then show ?thesis by (intro exI [of _ 0]) simp
  next
    case False
    with Cons.prems have "\<not> list_all (\<lambda>r. \<not> unresolved sim r) xs" by simp
    from Cons.IH [OF this] obtain j where "j < length xs" "unresolved sim (xs ! j)"
      "list_all (\<lambda>r. \<not> unresolved sim r) (take j xs)" by blast
    with False show ?thesis by (intro exI [of _ "Suc j"]) simp
  qed
qed

text \<open>
  C6. Let the simulation be well formed and let \<open>__get_electron_species\<close> answer \<open>e\<close> on
  it. Then \<open>__resolve_electrons\<close> returns without an error, and of the objects that
  existed before the call exactly those change that are species of the simulation with
  ionizers and an unset donor reference: their donor reference becomes \<open>e\<close>. Every other
  object (a species with a donor set by the user, a species without ionizers) is unchanged.
  Apart from the species objects, the simulation is as it was before the call or as the
  call of \<open>__get_electron_species\<close> left it.
\<close>

theorem resolve_electrons_sets_donors:
  assumes wf: "wf_simulation sim"
    and g: "get_electron_species K sim = (Inr e, sim1)"
  shows "\<exists>sim'. resolve_electrons K sim = (Inr (), sim') \<and>
           (sim' = sim \<or> sim' = sim1\<lparr> heap := heap sim' \<rparr>) \<and>
           (\<forall>r. allocated sim r \<longrightarrow>
              heap sim' r =
                (if r \<in> set (species sim) \<and> ionizers (heap sim r) \<and>
                    picongpu_ionization_electrons (heap sim r) = None
                 then (heap sim r)\<lparr> picongpu_ionization_electrons := Some e \<rparr>
                 else heap sim r))"
proof (cases "list_all (\<lambda>r. \<not> unresolved sim r) (species sim)")
  case True
  then have "resolve_electrons K sim = (Inr (), sim)"
    unfolding resolve_electrons_def by (intro resolve_electrons_loop_nothing) simp
  moreover have "\<not> (r \<in> set (species sim) \<and> ionizers (heap sim r) \<and>
      picongpu_ionization_electrons (heap sim r) = None)" for r
    using True by (auto simp: list_all_iff unresolved_def)
  ultimately show ?thesis by simp
next
  case False
  then obtain j where j: "j < length (species sim)"
    and uj: "unresolved sim (species sim ! j)"
    and before: "list_all (\<lambda>r. \<not> unresolved sim r) (take j (species sim))"
    using first_unresolved by blast
  let ?rj = "species sim ! j"
  let ?h2 = "(heap sim1)(?rj := (heap sim1 ?rj)\<lparr> picongpu_ionization_electrons := Some e \<rparr>)"
  let ?sim2 = "sim1\<lparr> heap := ?h2 \<rparr>"
  let ?sim' = "?sim2\<lparr> heap := resolved_heap e (set (drop (Suc j) (species ?sim2))) (heap ?sim2) \<rparr>"
  note res = get_electron_species_result [OF g]
  have "resolve_electrons K sim = resolve_electrons_loop K j sim"
    unfolding resolve_electrons_def
    using resolve_electrons_loop_skip [of sim j 0 K] before j by simp
  also have "\<dots> = resolve_electrons_loop K (Suc j) ?sim2"
    using j uj g by (subst resolve_electrons_loop.simps) (simp add: unresolved_def Let_def)
  also have "\<dots> = (Inr (), ?sim')"
    using res(1) by (intro resolve_electrons_loop_cached) simp
  finally have run: "resolve_electrons K sim = (Inr (), ?sim')" .
  have alloc: "heap sim1 r = heap sim r" if "allocated sim r" for r
    using res(2) that by (cases r) (auto simp: allocated_def)
  have sub: "set (species sim1) \<subseteq> insert (Ref (next_ref sim)) (set (species sim))"
    using res(2) by auto
  have drop_sub: "set (drop (Suc j) (species sim)) \<subseteq> set (drop (Suc j) (species sim1))"
    using res(2) by auto
  have "heap ?sim' r =
          (if r \<in> set (species sim) \<and> ionizers (heap sim r) \<and>
              picongpu_ionization_electrons (heap sim r) = None
           then (heap sim r)\<lparr> picongpu_ionization_electrons := Some e \<rparr>
           else heap sim r)" if a: "allocated sim r" for r
  proof (cases "r = ?rj")
    case True
    with j uj alloc [OF a] show ?thesis
      by (simp add: resolved_heap_def unresolved_def)
  next
    case neq: False
    have h2: "?h2 r = heap sim r"
      using neq alloc [OF a] by simp
    show ?thesis
    proof (cases "unresolved sim r")
      case False
      then show ?thesis
        using h2 by (auto simp: resolved_heap_def unresolved_def)
    next
      case True
      have "r \<in> set (drop (Suc j) (species sim1)) \<longleftrightarrow> r \<in> set (species sim)"
      proof
        assume "r \<in> set (drop (Suc j) (species sim1))"
        then have "r \<in> set (species sim1)" by (rule in_set_dropD)
        with sub have "r = Ref (next_ref sim) \<or> r \<in> set (species sim)" by auto
        with a show "r \<in> set (species sim)" by (auto simp: allocated_def)
      next
        assume "r \<in> set (species sim)"
        then obtain k where k: "k < length (species sim)" "species sim ! k = r"
          by (auto simp: in_set_conv_nth)
        have "\<not> k < j"
        proof
          assume "k < j"
          with j k have "r \<in> set (take j (species sim))"
            by (auto simp: in_set_conv_nth)
          with before True show False by (simp add: list_all_iff)
        qed
        moreover have "k \<noteq> j" using k neq by auto
        ultimately have "Suc j \<le> k" by simp
        with k have "r \<in> set (drop (Suc j) (species sim))"
          by (auto simp: in_set_conv_nth intro!: exI [of _ "k - Suc j"])
        with drop_sub show "r \<in> set (drop (Suc j) (species sim1))" by auto
      qed
      with True h2 show ?thesis
        by (simp add: resolved_heap_def unresolved_def)
    qed
  qed
  moreover have "?sim' = sim1\<lparr> heap := heap ?sim' \<rparr>"
    by simp
  ultimately show ?thesis
    using run by blast
qed

theorem resolve_electrons_sets_donors_witness:
  "wf_simulation ex_ions \<and>
   get_electron_species ex_constants ex_ions =
     (Inr (Ref 2), ex_ions\<lparr> electron_species := Some (Ref 2) \<rparr>) \<and>
   (\<exists>sim'. resolve_electrons ex_constants ex_ions = (Inr (), sim') \<and>
      heap sim' (Ref 0) = (heap ex_ions (Ref 0))\<lparr> picongpu_ionization_electrons := Some (Ref 2) \<rparr> \<and>
      heap sim' (Ref 1) = heap ex_ions (Ref 1) \<and>
      picongpu_ionization_electrons (heap sim' (Ref 1)) = Some (Ref 3) \<and>
      heap sim' (Ref 2) = heap ex_ions (Ref 2) \<and>
      heap sim' (Ref 3) = heap ex_ions (Ref 3))"
proof -
  have wf: "wf_simulation ex_ions"
    by (simp add: wf_simulation_def allocated_def ex_ions_def ex_simulation_def upt_4)
  have g: "get_electron_species ex_constants ex_ions =
             (Inr (Ref 2), ex_ions\<lparr> electron_species := Some (Ref 2) \<rparr>)"
    by (simp add: get_electron_species_def ex_ions_def ex_defs is_electron_def upt_4 Let_def)
  have a: "allocated ex_ions (Ref 0)" "allocated ex_ions (Ref 1)"
          "allocated ex_ions (Ref 2)" "allocated ex_ions (Ref 3)"
    by (simp_all add: allocated_def ex_ions_def ex_simulation_def)
  from resolve_electrons_sets_donors [OF wf g] obtain sim' where
    run: "resolve_electrons ex_constants ex_ions = (Inr (), sim')" and
    frame: "sim' = ex_ions \<or> sim' = ex_ions\<lparr> electron_species := Some (Ref 2), heap := heap sim' \<rparr>" and
    h: "\<And>r. allocated ex_ions r \<Longrightarrow> heap sim' r =
          (if r \<in> set (species ex_ions) \<and> ionizers (heap ex_ions r) \<and>
              picongpu_ionization_electrons (heap ex_ions r) = None
           then (heap ex_ions r)\<lparr> picongpu_ionization_electrons := Some (Ref 2) \<rparr>
           else heap ex_ions r)"
    by blast
  have "heap sim' (Ref 0) =
          (heap ex_ions (Ref 0))\<lparr> picongpu_ionization_electrons := Some (Ref 2) \<rparr>"
    using h [OF a(1)] by (simp add: ex_ions_def ex_defs upt_4)
  moreover have "heap sim' (Ref 1) = heap ex_ions (Ref 1)"
    using h [OF a(2)] by (simp add: ex_ions_def ex_defs upt_4)
  moreover have "picongpu_ionization_electrons (heap ex_ions (Ref 1)) = Some (Ref 3)"
    by (simp add: ex_ions_def ex_defs)
  moreover have "heap sim' (Ref 2) = heap ex_ions (Ref 2)"
    using h [OF a(3)] by (simp add: ex_ions_def ex_defs upt_4)
  moreover have "heap sim' (Ref 3) = heap ex_ions (Ref 3)"
    using h [OF a(4)] by (simp add: ex_ions_def ex_defs upt_4)
  ultimately show ?thesis
    using wf g run by simp
qed

section \<open>Properties of the ionization link filler\<close>

lemma fill_loop_frame:
  "fill_ionization_electrons_loop h d items ph = (res, ph') \<Longrightarrow>
   (ground_state_ionization (ph' q) = None \<longleftrightarrow> ground_state_ionization (ph q) = None) \<and>
   pypic_name (ph' q) = pypic_name (ph q) \<and>
   (q \<notin> snd ` set items \<longrightarrow> ph' q = ph q) \<and>
   (ground_state_ionization (ph q) = None \<longrightarrow> ph' q = ph q)"
proof (induction items arbitrary: ph)
  case Nil
  then show ?case by auto
next
  case (Cons item items)
  obtain p q' where item: "item = (p, q')" by (cases item)
  show ?case
    using Cons.prems Cons.IH unfolding item
    by (auto split: option.splits if_splits)
qed

lemma fill_loop_success:
  assumes "\<forall>(p, q) \<in> set items. ground_state_ionization (ph q) \<noteq> None \<longrightarrow>
             (\<exists>el t. picongpu_ionization_electrons (h p) = Some el \<and> map_of d el = Some t)"
    and "distinct (map snd items)"
  shows "\<exists>ph'. fill_ionization_electrons_loop h d items ph = (Inr (), ph') \<and>
           (\<forall>(p, q) \<in> set items. \<forall>ms. ground_state_ionization (ph q) = Some ms \<longrightarrow>
              (\<exists>el t. picongpu_ionization_electrons (h p) = Some el \<and> map_of d el = Some t \<and>
                 ph' q = (ph q)\<lparr> ground_state_ionization := Some (link_models t ms) \<rparr>))"
  using assms
proof (induction items arbitrary: ph)
  case Nil
  then show ?case by simp
next
  case (Cons item items)
  obtain p q where item: "item = (p, q)" by (cases item)
  from Cons.prems(2) have q_new: "q \<notin> snd ` set items" and dist: "distinct (map snd items)"
    by (simp_all add: item)
  show ?case
  proof (cases "ground_state_ionization (ph q)")
    case None
    have pre: "\<forall>(p, q) \<in> set items. ground_state_ionization (ph q) \<noteq> None \<longrightarrow>
        (\<exists>el t. picongpu_ionization_electrons (h p) = Some el \<and> map_of d el = Some t)"
      using Cons.prems(1) by auto
    from Cons.IH [OF pre dist] None show ?thesis
      by (auto simp: item)
  next
    case (Some ms)
    with Cons.prems(1) obtain el t where
      el: "picongpu_ionization_electrons (h p) = Some el" and t: "map_of d el = Some t"
      by (auto simp: item)
    let ?ph1 = "ph(q := (ph q)\<lparr> ground_state_ionization := Some (link_models t ms) \<rparr>)"
    have neq: "q' \<noteq> q" if "(p', q') \<in> set items" for p' q'
      using that q_new by force
    have pre: "\<forall>(p, q) \<in> set items. ground_state_ionization (?ph1 q) \<noteq> None \<longrightarrow>
        (\<exists>el t. picongpu_ionization_electrons (h p) = Some el \<and> map_of d el = Some t)"
    proof (intro ballI)
      fix x assume x: "x \<in> set items"
      obtain p' q' where pq: "x = (p', q')" by (cases x)
      from x neq have "q' \<noteq> q" by (simp add: pq)
      moreover from Cons.prems(1) x have "ground_state_ionization (ph q') \<noteq> None \<longrightarrow>
        (\<exists>el t. picongpu_ionization_electrons (h p') = Some el \<and> map_of d el = Some t)"
        by (auto simp: pq)
      ultimately show "case x of (p, q) \<Rightarrow> ground_state_ionization (?ph1 q) \<noteq> None \<longrightarrow>
        (\<exists>el t. picongpu_ionization_electrons (h p) = Some el \<and> map_of d el = Some t)"
        by (simp add: pq)
    qed
    from Cons.IH [OF pre dist] obtain ph' where
      run: "fill_ionization_electrons_loop h d items ?ph1 = (Inr (), ph')" and
      links: "\<forall>(p, q) \<in> set items. \<forall>ms. ground_state_ionization (?ph1 q) = Some ms \<longrightarrow>
              (\<exists>el t. picongpu_ionization_electrons (h p) = Some el \<and> map_of d el = Some t \<and>
                 ph' q = (?ph1 q)\<lparr> ground_state_ionization := Some (link_models t ms) \<rparr>)"
      by blast
    have "ph' q = ?ph1 q"
      using fill_loop_frame [OF run, of q] q_new by simp
    then have head: "ph' q = (ph q)\<lparr> ground_state_ionization := Some (link_models t ms) \<rparr>"
      by simp
    have "fill_ionization_electrons_loop h d (item # items) ph = (Inr (), ph')"
      using Some el t run by (simp add: item link_models_def)
    moreover have "\<forall>(p, q) \<in> set (item # items). \<forall>ms. ground_state_ionization (ph q) = Some ms \<longrightarrow>
              (\<exists>el t. picongpu_ionization_electrons (h p) = Some el \<and> map_of d el = Some t \<and>
                 ph' q = (ph q)\<lparr> ground_state_ionization := Some (link_models t ms) \<rparr>)"
    proof (intro ballI)
      fix x assume x: "x \<in> set (item # items)"
      obtain p' q' where pq: "x = (p', q')" by (cases x)
      show "case x of (p, q) \<Rightarrow> \<forall>ms. ground_state_ionization (ph q) = Some ms \<longrightarrow>
              (\<exists>el t. picongpu_ionization_electrons (h p) = Some el \<and> map_of d el = Some t \<and>
                 ph' q = (ph q)\<lparr> ground_state_ionization := Some (link_models t ms) \<rparr>)"
      proof (cases "x = item")
        case True
        then show ?thesis
          using Some el t head by (simp add: item)
      next
        case False
        with x have mem: "(p', q') \<in> set items" by (simp add: pq)
        from neq [OF mem] have "?ph1 q' = ph q'" by simp
        moreover from links mem have "\<forall>ms. ground_state_ionization (?ph1 q') = Some ms \<longrightarrow>
              (\<exists>el t. picongpu_ionization_electrons (h p') = Some el \<and> map_of d el = Some t \<and>
                 ph' q' = (?ph1 q')\<lparr> ground_state_ionization := Some (link_models t ms) \<rparr>)"
          by blast
        ultimately show ?thesis
          by (simp only: pq prod.case)
      qed
    qed
    ultimately show ?thesis by blast
  qed
qed

lemma fill_loop_failure:
  assumes "\<forall>(p, q) \<in> set items. ground_state_ionization (ph q) \<noteq> None \<longrightarrow>
             picongpu_ionization_electrons (h p) \<noteq> None"
    and "\<exists>(p, q) \<in> set items. ground_state_ionization (ph q) \<noteq> None \<and>
           (\<exists>el. picongpu_ionization_electrons (h p) = Some el \<and> map_of d el = None)"
  shows "\<exists>(p, q) \<in> set items. \<exists>el.
           ground_state_ionization (ph q) \<noteq> None \<and>
           picongpu_ionization_electrons (h p) = Some el \<and> map_of d el = None \<and>
           fst (fill_ionization_electrons_loop h d items ph) =
             Inl (AssertionError (not_added_message (name (h el)) (pypic_name (ph q))))"
  using assms
proof (induction items arbitrary: ph)
  case Nil
  then show ?case by simp
next
  case (Cons item items)
  obtain p q where item: "item = (p, q)" by (cases item)
  show ?case
  proof (cases "ground_state_ionization (ph q) \<noteq> None \<and>
      (\<exists>el. picongpu_ionization_electrons (h p) = Some el \<and> map_of d el = None)")
    case True
    then show ?thesis
      by (auto simp: item)
  next
    case False
    with Cons.prems(2) have bad: "\<exists>(p, q) \<in> set items. ground_state_ionization (ph q) \<noteq> None \<and>
           (\<exists>el. picongpu_ionization_electrons (h p) = Some el \<and> map_of d el = None)"
      by (auto simp: item)
    have pre: "\<forall>(p, q) \<in> set items. ground_state_ionization (ph q) \<noteq> None \<longrightarrow>
             picongpu_ionization_electrons (h p) \<noteq> None"
      using Cons.prems(1) by auto
    show ?thesis
    proof (cases "ground_state_ionization (ph q)")
      case None
      from Cons.IH [OF pre bad] None show ?thesis
        by (auto simp: item)
    next
      case (Some ms)
      with Cons.prems(1) False obtain el t where
        el: "picongpu_ionization_electrons (h p) = Some el" and t: "map_of d el = Some t"
        by (auto simp: item)
      let ?ph1 = "ph(q := (ph q)\<lparr> ground_state_ionization := Some (link_models t ms) \<rparr>)"
      have gsi: "ground_state_ionization (?ph1 q') = None \<longleftrightarrow> ground_state_ionization (ph q') = None"
        and nm: "pypic_name (?ph1 q') = pypic_name (ph q')" for q'
        using Some by auto
      have pre1: "\<forall>(p, q) \<in> set items. ground_state_ionization (?ph1 q) \<noteq> None \<longrightarrow>
             picongpu_ionization_electrons (h p) \<noteq> None"
        using pre unfolding gsi .
      have bad1: "\<exists>(p, q) \<in> set items. ground_state_ionization (?ph1 q) \<noteq> None \<and>
           (\<exists>el. picongpu_ionization_electrons (h p) = Some el \<and> map_of d el = None)"
        using bad unfolding gsi .
      from Cons.IH [OF pre1 bad1]
      have "\<exists>(p, q) \<in> set items. \<exists>el.
           ground_state_ionization (ph q) \<noteq> None \<and>
           picongpu_ionization_electrons (h p) = Some el \<and> map_of d el = None \<and>
           fst (fill_ionization_electrons_loop h d items ?ph1) =
             Inl (AssertionError (not_added_message (name (h el)) (pypic_name (ph q))))"
        unfolding gsi nm .
      moreover have "fill_ionization_electrons_loop h d (item # items) ph =
          fill_ionization_electrons_loop h d items ?ph1"
        using Some el t by (simp add: item link_models_def)
      ultimately show ?thesis by auto
    qed
  qed
qed

text \<open>
  C7. \<open>__fill_ionization_electrons\<close> is run on the dictionary of translated species once the
  donor references have been resolved: every PICMI species whose translation has
  ionization models has its donor reference set (the method's documentation requires
  it), and different PICMI species have different translations. If for some such
  species the donor is no key of the dictionary, the method fails with the assertion
  error that names the donor and the species and says that the donor must be added
  explicitly with \<open>add_species()\<close>. Otherwise it returns, and every ionization model of
  every translated species that has ionization models is linked to the translated
  species which the dictionary holds for the donor, a PyPIConGPU species object;
  translated species without ionization models are untouched.
\<close>

theorem fill_ionization_electrons_links:
  assumes "\<forall>(p, q) \<in> set d. ground_state_ionization (ph q) \<noteq> None \<longrightarrow>
             picongpu_ionization_electrons (h p) \<noteq> None"
    and "distinct (map snd d)"
  shows "if (\<exists>(p, q) \<in> set d. ground_state_ionization (ph q) \<noteq> None \<and>
               (\<exists>el. picongpu_ionization_electrons (h p) = Some el \<and> map_of d el = None))
         then (\<exists>(p, q) \<in> set d. \<exists>el.
                 ground_state_ionization (ph q) \<noteq> None \<and>
                 picongpu_ionization_electrons (h p) = Some el \<and> map_of d el = None \<and>
                 fst (fill_ionization_electrons h d ph) =
                   Inl (AssertionError (not_added_message (name (h el)) (pypic_name (ph q)))))
         else (\<exists>ph'. fill_ionization_electrons h d ph = (Inr (), ph') \<and>
                 (\<forall>(p, q) \<in> set d. \<forall>ms. ground_state_ionization (ph q) = Some ms \<longrightarrow>
                    (\<exists>el t. picongpu_ionization_electrons (h p) = Some el \<and>
                       map_of d el = Some t \<and>
                       ph' q = (ph q)\<lparr> ground_state_ionization := Some (link_models t ms) \<rparr>)) \<and>
                 (\<forall>q. ground_state_ionization (ph q) = None \<longrightarrow> ph' q = ph q))"
proof (cases "\<exists>(p, q) \<in> set d. ground_state_ionization (ph q) \<noteq> None \<and>
               (\<exists>el. picongpu_ionization_electrons (h p) = Some el \<and> map_of d el = None)")
  case True
  from fill_loop_failure [OF assms(1) True] True show ?thesis
    unfolding fill_ionization_electrons_def by simp
next
  case False
  have pre: "\<forall>(p, q) \<in> set d. ground_state_ionization (ph q) \<noteq> None \<longrightarrow>
             (\<exists>el t. picongpu_ionization_electrons (h p) = Some el \<and> map_of d el = Some t)"
  proof (intro ballI)
    fix x assume x: "x \<in> set d"
    obtain p q where pq: "x = (p, q)" by (cases x)
    show "case x of (p, q) \<Rightarrow> ground_state_ionization (ph q) \<noteq> None \<longrightarrow>
             (\<exists>el t. picongpu_ionization_electrons (h p) = Some el \<and> map_of d el = Some t)"
      using assms(1) False x unfolding pq by fastforce
  qed
  from fill_loop_success [OF pre assms(2)] obtain ph' where
    run: "fill_ionization_electrons_loop h d d ph = (Inr (), ph')" and
    links: "\<forall>(p, q) \<in> set d. \<forall>ms. ground_state_ionization (ph q) = Some ms \<longrightarrow>
              (\<exists>el t. picongpu_ionization_electrons (h p) = Some el \<and> map_of d el = Some t \<and>
                 ph' q = (ph q)\<lparr> ground_state_ionization := Some (link_models t ms) \<rparr>)"
    by blast
  have "\<forall>q. ground_state_ionization (ph q) = None \<longrightarrow> ph' q = ph q"
    using fill_loop_frame [OF run] by blast
  with run links False show ?thesis
    unfolding fill_ionization_electrons_def by simp
qed

theorem fill_ionization_electrons_links_witness:
  "fill_ionization_electrons ex_donor_heap [(Ref 0, PRef 0), (Ref 1, PRef 1)] ex_pypic_heap =
     (Inr (), ex_pypic_heap(PRef 0 :=
        \<lparr> pypic_name = ''N'', ground_state_ionization = Some
           [\<lparr> ionization_model_name = ''ADK'', ionization_electron_species = Some (PRef 1) \<rparr>,
            \<lparr> ionization_model_name = ''BSI'', ionization_electron_species = Some (PRef 1) \<rparr>] \<rparr>)) \<and>
   fst (fill_ionization_electrons ex_donor_heap [(Ref 0, PRef 0)] ex_pypic_heap) =
     Inl (AssertionError (not_added_message ''e'' ''N''))"
proof -
  let ?d = "[(Ref 0, PRef 0), (Ref 1, PRef 1)]"
  have set1: "\<forall>(p, q) \<in> set ?d. ground_state_ionization (ex_pypic_heap q) \<noteq> None \<longrightarrow>
             picongpu_ionization_electrons (ex_donor_heap p) \<noteq> None"
    by (simp add: ex_pypic_heap_def ex_donor_heap_def ex_heap_def ex_species_def)
  have dist1: "distinct (map snd ?d)" by simp
  have ok: "\<not> (\<exists>(p, q) \<in> set ?d. ground_state_ionization (ex_pypic_heap q) \<noteq> None \<and>
               (\<exists>el. picongpu_ionization_electrons (ex_donor_heap p) = Some el \<and> map_of ?d el = None))"
    by (simp add: ex_pypic_heap_def ex_donor_heap_def ex_heap_def ex_species_def)
  from fill_ionization_electrons_links [OF set1 dist1] ok obtain ph' where
    run: "fill_ionization_electrons ex_donor_heap ?d ex_pypic_heap = (Inr (), ph')" and
    links: "\<forall>(p, q) \<in> set ?d. \<forall>ms. ground_state_ionization (ex_pypic_heap q) = Some ms \<longrightarrow>
              (\<exists>el t. picongpu_ionization_electrons (ex_donor_heap p) = Some el \<and>
                 map_of ?d el = Some t \<and>
                 ph' q = (ex_pypic_heap q)\<lparr> ground_state_ionization := Some (link_models t ms) \<rparr>)" and
    frame: "\<forall>q. ground_state_ionization (ex_pypic_heap q) = None \<longrightarrow> ph' q = ex_pypic_heap q"
    by (simp only: if_False) blast
  have "ph' q = (ex_pypic_heap(PRef 0 :=
        \<lparr> pypic_name = ''N'', ground_state_ionization = Some
           [\<lparr> ionization_model_name = ''ADK'', ionization_electron_species = Some (PRef 1) \<rparr>,
            \<lparr> ionization_model_name = ''BSI'', ionization_electron_species = Some (PRef 1) \<rparr>] \<rparr>)) q"
    for q
  proof (cases "q = PRef 0")
    case True
    with links show ?thesis
      by (simp add: ex_pypic_heap_def ex_donor_heap_def ex_heap_def ex_species_def link_models_def)
  next
    case False
    with frame show ?thesis
      by (simp add: ex_pypic_heap_def)
  qed
  then have first: "ph' = ex_pypic_heap(PRef 0 :=
        \<lparr> pypic_name = ''N'', ground_state_ionization = Some
           [\<lparr> ionization_model_name = ''ADK'', ionization_electron_species = Some (PRef 1) \<rparr>,
            \<lparr> ionization_model_name = ''BSI'', ionization_electron_species = Some (PRef 1) \<rparr>] \<rparr>)"
    by (rule ext)
  let ?d2 = "[(Ref 0, PRef 0)]"
  have set2: "\<forall>(p, q) \<in> set ?d2. ground_state_ionization (ex_pypic_heap q) \<noteq> None \<longrightarrow>
             picongpu_ionization_electrons (ex_donor_heap p) \<noteq> None"
    by (simp add: ex_pypic_heap_def ex_donor_heap_def ex_heap_def ex_species_def)
  have dist2: "distinct (map snd ?d2)" by simp
  have second: "fst (fill_ionization_electrons ex_donor_heap ?d2 ex_pypic_heap) =
     Inl (AssertionError (not_added_message ''e'' ''N''))"
    using fill_ionization_electrons_links [OF set2 dist2]
    by (simp add: ex_pypic_heap_def ex_donor_heap_def ex_heap_def ex_species_def)
  from run first second show ?thesis by simp
qed

section \<open>Properties of the SimpleDensity operations\<close>

lemma placed_Nil [simp]: "placed h [] = []"
  by (simp add: placed_def)

lemma placed_append: "placed h (xs @ ys) = placed h xs @ placed h ys"
  by (simp add: placed_def)

lemma members_append: "members (xs @ ys) l p = members xs l p @ members ys l p"
  by (simp add: members_def)

lemma set_update_subset:
  "(k', v') \<in> set (AList.update k v al) \<Longrightarrow> (k', v') = (k, v) \<or> (k', v') \<in> set al"
  by (induction al) (auto split: if_splits)

lemma group_species_step:
  assumes "wf_groups d"
  shows "wf_groups (group_species h d item)"
    and "lookup2 (group_species h d item) l p = lookup2 d l p @ members (placed h [item]) l p"
proof -
  obtain s lo where item: "item = (s, lo)" by (cases item)
  show "wf_groups (group_species h d item)"
  proof (cases lo)
    case None
    with assms show ?thesis by (simp add: group_species_def item)
  next
    case (Some lay)
    show ?thesis
    proof (cases "initial_distribution (h s)")
      case None
      with assms Some show ?thesis by (simp add: group_species_def item)
    next
      case (Some pr)
      define bp where "bp = (case map_of d lay of None \<Rightarrow> [] | Some bp \<Rightarrow> bp)"
      define xs where "xs = (case map_of bp pr of None \<Rightarrow> [] | Some xs \<Rightarrow> xs)"
      define bp' where "bp' = AList.update pr (xs @ [s]) bp"
      have g: "group_species h d item = AList.update lay bp' d"
        using Some \<open>lo = Some lay\<close>
        by (simp add: group_species_def item Let_def bp_def xs_def bp'_def)
      have bp_wf: "distinct (map fst bp)" "\<And>p ys. (p, ys) \<in> set bp \<Longrightarrow> ys \<noteq> []"
      proof -
        show "distinct (map fst bp)"
        proof (cases "map_of d lay")
          case None
          then show ?thesis by (simp add: bp_def)
        next
          case (Some b)
          then have "(lay, b) \<in> set d" by (rule map_of_SomeD)
          with assms Some show ?thesis by (auto simp: wf_groups_def bp_def)
        qed
        show "ys \<noteq> []" if "(p, ys) \<in> set bp" for p ys
        proof (cases "map_of d lay")
          case None
          with that show ?thesis by (simp add: bp_def)
        next
          case (Some b)
          then have "(lay, b) \<in> set d" by (rule map_of_SomeD)
          with assms Some that show ?thesis by (auto simp: wf_groups_def bp_def)
        qed
      qed
      have bp'_dist: "distinct (map fst bp')"
        using bp_wf(1) by (simp add: bp'_def distinct_update)
      have bp'_ne: "ys \<noteq> []" if "(p, ys) \<in> set bp'" for p ys
        using set_update_subset [OF that [unfolded bp'_def]] bp_wf(2) by auto
      have "distinct (map fst (AList.update lay bp' d))"
        using assms by (simp add: wf_groups_def distinct_update)
      moreover have "distinct (map fst b) \<and> (\<forall>(p, ys) \<in> set b. ys \<noteq> [])"
        if "(l, b) \<in> set (AList.update lay bp' d)" for l b
      proof -
        from set_update_subset [OF that] consider "b = bp'" | "(l, b) \<in> set d" by auto
        then show ?thesis
        proof cases
          case 1
          with bp'_dist bp'_ne show ?thesis by auto
        next
          case 2
          with assms show ?thesis by (auto simp: wf_groups_def)
        qed
      qed
      ultimately show ?thesis
        unfolding g wf_groups_def by blast
    qed
  qed
  show "lookup2 (group_species h d item) l p = lookup2 d l p @ members (placed h [item]) l p"
    by (auto simp: group_species_def item lookup2_def members_def placed_def Let_def
          update_conv' split: option.splits)
qed

lemma group_species_foldl:
  "wf_groups d \<Longrightarrow>
   wf_groups (foldl (group_species h) d items) \<and>
   lookup2 (foldl (group_species h) d items) l p = lookup2 d l p @ members (placed h items) l p"
proof (induction items arbitrary: d)
  case Nil
  then show ?case by (simp add: members_def)
next
  case (Cons item items)
  have wf: "wf_groups (group_species h d item)"
    and lk: "lookup2 (group_species h d item) l p = lookup2 d l p @ members (placed h [item]) l p"
    by (rule group_species_step [OF Cons.prems])+
  from Cons.IH [OF wf] lk show ?case
    using placed_append [of h "[item]" items] by (simp add: members_append)
qed

lemma group_items_mem:
  "(l, p, xs) \<in> set (group_items d) \<longleftrightarrow> (\<exists>bp. (l, bp) \<in> set d \<and> (p, xs) \<in> set bp)"
  by (auto simp: group_items_def)

lemma group_items_keys_layout:
  "k \<in> set (map group_key (group_items d)) \<Longrightarrow> fst k \<in> fst ` set d"
  by (auto simp: group_items_def group_key_def) force

lemma group_items_distinct:
  "wf_groups d \<Longrightarrow> distinct (map group_key (group_items d))"
proof (induction d)
  case Nil
  then show ?case by (simp add: group_items_def)
next
  case (Cons entry d)
  obtain l bp where entry: "entry = (l, bp)" by (cases entry)
  from Cons.prems have wf: "wf_groups d" and l_new: "l \<notin> fst ` set d"
    and bp: "distinct (map fst bp)"
    by (auto simp: wf_groups_def entry)
  have split: "map group_key (group_items (entry # d)) =
      map (\<lambda>p. (l, p)) (map fst bp) @ map group_key (group_items d)"
    by (auto simp: group_items_def group_key_def entry)
  have "distinct (map (\<lambda>p. (l, p)) (map fst bp))"
    using bp by (simp add: distinct_map inj_on_def)
  moreover have "distinct (map group_key (group_items d))"
    using Cons.IH [OF wf] .
  moreover have "set (map (\<lambda>p. (l, p)) (map fst bp)) \<inter> set (map group_key (group_items d)) = {}"
  proof (rule ccontr)
    assume "\<not> ?thesis"
    then obtain k where "k \<in> set (map (\<lambda>p. (l, p)) (map fst bp))"
      and k: "k \<in> set (map group_key (group_items d))" by blast
    then have "fst k = l" by (auto simp: group_key_def)
    with group_items_keys_layout [OF k] l_new show False by simp
  qed
  ultimately show ?case
    unfolding split by (simp only: distinct_append)
qed

lemma group_items_lookup2:
  assumes "wf_groups d"
  shows "(l, p, xs) \<in> set (group_items d) \<longleftrightarrow> xs \<noteq> [] \<and> lookup2 d l p = xs"
proof
  assume "(l, p, xs) \<in> set (group_items d)"
  then obtain bp where m: "(l, bp) \<in> set d" "(p, xs) \<in> set bp"
    by (auto simp: group_items_mem)
  with assms have "distinct (map fst d)" "distinct (map fst bp)" "xs \<noteq> []"
    by (auto simp: wf_groups_def)
  with m show "xs \<noteq> [] \<and> lookup2 d l p = xs"
    by (simp add: lookup2_def)
next
  assume a: "xs \<noteq> [] \<and> lookup2 d l p = xs"
  then obtain bp where "map_of d l = Some bp" "map_of bp p = Some xs"
    by (auto simp: lookup2_def split: option.splits)
  then have "(l, bp) \<in> set d" "(p, xs) \<in> set bp"
    by (auto dest: map_of_SomeD)
  then show "(l, p, xs) \<in> set (group_items d)"
    by (auto simp: group_items_mem)
qed

lemma members_nonempty:
  "members pl l p \<noteq> [] \<longleftrightarrow> (\<exists>s. (s, l, p) \<in> set pl)"
  by (auto simp: members_def filter_empty_conv)

lemma set_members: "set (members pl l p) = {s. (s, l, p) \<in> set pl}"
  by (auto simp: members_def image_iff)

lemma ebind_Inr:
  "ebind m f = Inr y \<longleftrightarrow> (\<exists>x. m = Inr x \<and> f x = Inr y)"
  by (cases m) (simp_all add: ebind_def)

lemma emap_Inr:
  "emap f xs = Inr ys \<longleftrightarrow> list_all2 (\<lambda>x y. f x = Inr y) xs ys"
proof (induction xs arbitrary: ys)
  case Nil
  then show ?case by auto
next
  case (Cons x xs)
  show ?case
    by (cases ys) (auto simp: ebind_Inr Cons.IH)
qed

lemma lookup_species_Inr:
  "lookup_species d xs = Inr qs \<longleftrightarrow> list_all2 (\<lambda>x q. map_of d x = Some q) xs qs"
proof (induction xs arbitrary: qs)
  case Nil
  then show ?case by auto
next
  case (Cons x xs)
  show ?case
    by (cases qs) (auto simp: ebind_Inr Cons.IH split: option.splits)
qed

lemma lookup_species_set:
  assumes "lookup_species d xs = Inr qs"
  shows "set qs = {q. \<exists>s \<in> set xs. map_of d s = Some q}"
    and "\<forall>s \<in> set xs. map_of d s \<noteq> None"
proof -
  from assms have l: "list_all2 (\<lambda>x q. map_of d x = Some q) xs qs"
    by (simp add: lookup_species_Inr)
  show "set qs = {q. \<exists>s \<in> set xs. map_of d s = Some q}"
  proof (intro set_eqI iffI)
    fix q assume "q \<in> set qs"
    then obtain i where "i < length qs" "qs ! i = q" by (auto simp: in_set_conv_nth)
    with l have "map_of d (xs ! i) = Some q" "xs ! i \<in> set xs"
      by (auto simp: list_all2_conv_all_nth)
    then show "q \<in> {q. \<exists>s \<in> set xs. map_of d s = Some q}" by blast
  next
    fix q assume "q \<in> {q. \<exists>s \<in> set xs. map_of d s = Some q}"
    then obtain s where "s \<in> set xs" "map_of d s = Some q" by blast
    then obtain i where "i < length xs" "xs ! i = s" by (auto simp: in_set_conv_nth)
    with l \<open>map_of d s = Some q\<close> have "qs ! i = q" "i < length qs"
      by (auto simp: list_all2_conv_all_nth)
    then show "q \<in> set qs" by auto
  qed
  show "\<forall>s \<in> set xs. map_of d s \<noteq> None"
  proof
    fix s assume "s \<in> set xs"
    then obtain i where "i < length xs" "xs ! i = s" by (auto simp: in_set_conv_nth)
    with l show "map_of d s \<noteq> None"
      by (auto simp: list_all2_conv_all_nth)
  qed
qed

lemma emap_total:
  "(\<And>x. x \<in> set xs \<Longrightarrow> \<exists>y. f x = Inr y) \<Longrightarrow> \<exists>ys. emap f xs = Inr ys"
proof (induction xs)
  case Nil
  then show ?case by simp
next
  case (Cons x xs)
  then obtain y ys where "f x = Inr y" "emap f xs = Inr ys"
    by (metis list.set_intros(1) list.set_intros(2))
  then show ?case by (simp add: ebind_def)
qed

lemma lookup_species_total:
  "(\<And>s. s \<in> set xs \<Longrightarrow> map_of d s \<noteq> None) \<Longrightarrow> \<exists>qs. lookup_species d xs = Inr qs"
proof (induction xs)
  case Nil
  then show ?case by simp
next
  case (Cons x xs)
  then obtain q qs where "map_of d x = Some q" "lookup_species d xs = Inr qs"
    by (metis list.set_intros(1) list.set_intros(2) not_None_eq)
  then show ?case by (simp add: ebind_def)
qed

lemma simple_density_op_Inr:
  "simple_density_op tr d (l, p, xs) = Inr op \<longleftrightarrow>
     l = PseudoRandomLayout (ppc op) \<and> tr p = Inr (op_profile op) \<and>
     (\<exists>qs. lookup_species d xs = Inr qs \<and> op_species op = set qs)"
  by (cases l; cases op) (auto simp: simple_density_op_def ebind_Inr)

lemma grouping:
  fixes h :: "ref \<Rightarrow> ('n, 'p) picmi_species"
  defines "D \<equiv> \<lambda>items. foldl (group_species h) [] items"
  shows "distinct (map group_key (group_items (D items)))"
    and "(l, p, xs) \<in> set (group_items (D items)) \<longleftrightarrow>
           xs \<noteq> [] \<and> xs = members (placed h items) l p"
proof -
  have wf0: "wf_groups ([] :: 'p species_by_profile_by_layout)"
    by (simp add: wf_groups_def)
  from group_species_foldl [OF wf0, of h items]
  have wf: "wf_groups (D items)"
    and lk: "\<And>l p. lookup2 (D items) l p = members (placed h items) l p"
    by (simp_all add: D_def lookup2_def)
  show "distinct (map group_key (group_items (D items)))"
    using wf by (rule group_items_distinct)
  show "(l, p, xs) \<in> set (group_items (D items)) \<longleftrightarrow>
           xs \<noteq> [] \<and> xs = members (placed h items) l p"
    using group_items_lookup2 [OF wf, of l p xs] lk by auto
qed

text \<open>
  C8. \<open>__get_operations_simple_density\<close> returns operations exactly when every
  species with a layout and a profile has a pseudo-random layout, a profile that
  translates, and a translation in the dictionary. The operations then correspond one
  to one to the different pairs (layout, profile) that occur among these species,
  pairs being compared by value: the operation of a pair has the layout's number of
  macroparticles per cell, the translated profile, and as its species exactly the
  translations of the species with this layout and this profile. So two species with
  equal layout and equal profile are in the same operation, species that differ in
  either are in two operations, and no operation is empty or mixed.
\<close>

theorem get_operations_simple_density_groups:
  "((\<exists>ops. get_operations_simple_density tr h ss ls d = Inr ops) \<longleftrightarrow>
      (\<forall>(s, l, p) \<in> set (placed h (zip ss ls)).
         (\<exists>n. l = PseudoRandomLayout n) \<and> (\<exists>pp. tr p = Inr pp) \<and> map_of d s \<noteq> None)) \<and>
   (get_operations_simple_density tr h ss ls d = Inr ops \<longrightarrow>
      (\<exists>keys. length keys = length ops \<and> distinct keys \<and>
         set keys = {(l, p). \<exists>s. (s, l, p) \<in> set (placed h (zip ss ls))} \<and>
         (\<forall>i < length ops. \<exists>l p. keys ! i = (l, p) \<and>
            l = PseudoRandomLayout (ppc (ops ! i)) \<and>
            tr p = Inr (op_profile (ops ! i)) \<and>
            op_species (ops ! i) =
              {q. \<exists>s. (s, l, p) \<in> set (placed h (zip ss ls)) \<and> map_of d s = Some q} \<and>
            op_species (ops ! i) \<noteq> {})))"
proof -
  define pl where "pl = placed h (zip ss ls)"
  define G where "G = group_items (foldl (group_species h) [] (zip ss ls))"
  have run: "get_operations_simple_density tr h ss ls d = emap (simple_density_op tr d) G"
    by (simp add: get_operations_simple_density_def G_def)
  have dist: "distinct (map group_key G)"
    unfolding G_def by (rule grouping(1))
  have mem: "(l, p, xs) \<in> set G \<longleftrightarrow> xs \<noteq> [] \<and> xs = members pl l p" for l p xs
    unfolding G_def pl_def by (rule grouping(2))
  have keys: "set (map group_key G) = {(l, p). \<exists>s. (s, l, p) \<in> set pl}"
  proof (intro set_eqI iffI)
    fix k assume "k \<in> set (map group_key G)"
    then obtain l p xs where "(l, p, xs) \<in> set G" "k = (l, p)"
      by (auto simp: group_key_def)
    with mem have "members pl l p \<noteq> []" by auto
    with \<open>k = (l, p)\<close> show "k \<in> {(l, p). \<exists>s. (s, l, p) \<in> set pl}"
      by (simp add: members_nonempty)
  next
    fix k assume "k \<in> {(l, p). \<exists>s. (s, l, p) \<in> set pl}"
    then obtain l p where k: "k = (l, p)" and "members pl l p \<noteq> []"
      by (cases k) (auto simp: members_nonempty)
    with mem have "(l, p, members pl l p) \<in> set G" by simp
    then have "group_key (l, p, members pl l p) \<in> set (map group_key G)"
      by force
    then show "k \<in> set (map group_key G)"
      by (simp add: k group_key_def)
  qed
  have total: "(\<exists>ops. emap (simple_density_op tr d) G = Inr ops) \<longleftrightarrow>
      (\<forall>(s, l, p) \<in> set pl.
         (\<exists>n. l = PseudoRandomLayout n) \<and> (\<exists>pp. tr p = Inr pp) \<and> map_of d s \<noteq> None)"
  proof
    assume "\<exists>ops. emap (simple_density_op tr d) G = Inr ops"
    then obtain ops where l2: "list_all2 (\<lambda>x y. simple_density_op tr d x = Inr y) G ops"
      by (auto simp: emap_Inr)
    show "\<forall>(s, l, p) \<in> set pl.
         (\<exists>n. l = PseudoRandomLayout n) \<and> (\<exists>pp. tr p = Inr pp) \<and> map_of d s \<noteq> None"
    proof (intro ballI)
      fix x assume x: "x \<in> set pl"
      obtain s l p where slp: "x = (s, l, p)" by (cases x)
      from x have "members pl l p \<noteq> []" and s_mem: "s \<in> set (members pl l p)"
        by (auto simp: members_nonempty set_members slp)
      with mem have "(l, p, members pl l p) \<in> set G" by simp
      then obtain i where "i < length G" "G ! i = (l, p, members pl l p)"
        by (auto simp: in_set_conv_nth)
      with l2 have "simple_density_op tr d (l, p, members pl l p) = Inr (ops ! i)"
        by (auto simp: list_all2_conv_all_nth)
      then obtain qs where "l = PseudoRandomLayout (ppc (ops ! i))"
        "tr p = Inr (op_profile (ops ! i))" "lookup_species d (members pl l p) = Inr qs"
        by (auto simp: simple_density_op_Inr)
      with lookup_species_set(2) [OF this(3)] s_mem
      show "case x of (s, l, p) \<Rightarrow>
         (\<exists>n. l = PseudoRandomLayout n) \<and> (\<exists>pp. tr p = Inr pp) \<and> map_of d s \<noteq> None"
        by (auto simp: slp)
    qed
  next
    assume ok: "\<forall>(s, l, p) \<in> set pl.
         (\<exists>n. l = PseudoRandomLayout n) \<and> (\<exists>pp. tr p = Inr pp) \<and> map_of d s \<noteq> None"
    show "\<exists>ops. emap (simple_density_op tr d) G = Inr ops"
    proof (rule emap_total)
      fix x assume x: "x \<in> set G"
      obtain l p xs where lpx: "x = (l, p, xs)" by (cases x)
      from x mem have ne: "xs \<noteq> []" and xs: "xs = members pl l p"
        by (auto simp: lpx)
      then obtain s0 where "(s0, l, p) \<in> set pl"
        by (auto simp: members_nonempty)
      with ok obtain n pp where l: "l = PseudoRandomLayout n" and pp: "tr p = Inr pp"
        by fastforce
      have "\<exists>qs. lookup_species d xs = Inr qs"
      proof (rule lookup_species_total)
        fix s assume "s \<in> set xs"
        then have "(s, l, p) \<in> set pl" by (simp add: xs set_members)
        with ok show "map_of d s \<noteq> None" by fastforce
      qed
      then obtain qs where "lookup_species d xs = Inr qs" by blast
      with l pp show "\<exists>y. simple_density_op tr d x = Inr y"
        by (simp add: lpx simple_density_op_def ebind_def)
    qed
  qed
  have char: "\<exists>keys. length keys = length ops \<and> distinct keys \<and>
         set keys = {(l, p). \<exists>s. (s, l, p) \<in> set pl} \<and>
         (\<forall>i < length ops. \<exists>l p. keys ! i = (l, p) \<and>
            l = PseudoRandomLayout (ppc (ops ! i)) \<and>
            tr p = Inr (op_profile (ops ! i)) \<and>
            op_species (ops ! i) = {q. \<exists>s. (s, l, p) \<in> set pl \<and> map_of d s = Some q} \<and>
            op_species (ops ! i) \<noteq> {})"
    if "emap (simple_density_op tr d) G = Inr ops"
  proof -
    from that have l2: "list_all2 (\<lambda>x y. simple_density_op tr d x = Inr y) G ops"
      by (simp add: emap_Inr)
    then have len: "length (map group_key G) = length ops"
      by (simp add: list_all2_lengthD)
    have each: "\<exists>l p. map group_key G ! i = (l, p) \<and>
            l = PseudoRandomLayout (ppc (ops ! i)) \<and>
            tr p = Inr (op_profile (ops ! i)) \<and>
            op_species (ops ! i) = {q. \<exists>s. (s, l, p) \<in> set pl \<and> map_of d s = Some q} \<and>
            op_species (ops ! i) \<noteq> {}" if i: "i < length ops" for i
    proof -
      from i len have iG: "i < length G" by simp
      obtain l p xs where lpx: "G ! i = (l, p, xs)" by (cases "G ! i")
      from iG lpx have "(l, p, xs) \<in> set G" by (metis nth_mem)
      with mem have ne: "xs \<noteq> []" and xs: "xs = members pl l p" by auto
      from l2 iG lpx have "simple_density_op tr d (l, p, xs) = Inr (ops ! i)"
        by (auto simp: list_all2_conv_all_nth)
      then obtain qs where l: "l = PseudoRandomLayout (ppc (ops ! i))"
        and pp: "tr p = Inr (op_profile (ops ! i))"
        and qs: "lookup_species d xs = Inr qs" and sp: "op_species (ops ! i) = set qs"
        by (auto simp: simple_density_op_Inr)
      from lookup_species_set(1) [OF qs]
      have set_qs: "set qs = {q. \<exists>s. (s, l, p) \<in> set pl \<and> map_of d s = Some q}"
        by (auto simp: xs set_members)
      from qs ne have "qs \<noteq> []"
        by (auto simp: lookup_species_Inr)
      then have "set qs \<noteq> {}" by simp
      moreover have "map group_key G ! i = (l, p)"
        using iG lpx by (simp add: group_key_def)
      ultimately show ?thesis
        using l pp sp set_qs by simp
    qed
    from len dist keys each show ?thesis by blast
  qed
  from total char show ?thesis
    unfolding run pl_def by blast
qed

lemma upt_5: "[0..<5] = [0, 1, 2, 3, 4]"
  by (simp add: upt_rec)

lemma ex_ops_run:
  "get_operations_simple_density ex_tr ex_profiles (map Ref [0..<5]) ex_layouts ex_dict = Inr ex_ops"
  by (simp add: get_operations_simple_density_def group_species_def group_items_def
        simple_density_op_def ebind_def ex_profiles_def ex_heap_def ex_species_def
        ex_layouts_def ex_dict_def ex_tr_def ex_ops_def upt_5 Let_def)

theorem get_operations_simple_density_groups_witness:
  "get_operations_simple_density ex_tr ex_profiles (map Ref [0..<5]) ex_layouts ex_dict = Inr ex_ops \<and>
   placed ex_profiles (zip (map Ref [0..<5]) ex_layouts) =
     [(Ref 0, PseudoRandomLayout 2, 7), (Ref 1, PseudoRandomLayout 2, 7),
      (Ref 2, PseudoRandomLayout 4, 7), (Ref 3, PseudoRandomLayout 2, 8)] \<and>
   (\<exists>keys. length keys = length ex_ops \<and> distinct keys \<and>
      set keys = {(l, p). \<exists>s. (s, l, p) \<in> set (placed ex_profiles (zip (map Ref [0..<5]) ex_layouts))} \<and>
      (\<forall>i < length ex_ops. \<exists>l p. keys ! i = (l, p) \<and>
         l = PseudoRandomLayout (ppc (ex_ops ! i)) \<and>
         ex_tr p = Inr (op_profile (ex_ops ! i)) \<and>
         op_species (ex_ops ! i) =
           {q. \<exists>s. (s, l, p) \<in> set (placed ex_profiles (zip (map Ref [0..<5]) ex_layouts)) \<and>
                map_of ex_dict s = Some q} \<and>
         op_species (ex_ops ! i) \<noteq> {}))"
proof -
  have "placed ex_profiles (zip (map Ref [0..<5]) ex_layouts) =
     [(Ref 0, PseudoRandomLayout 2, 7), (Ref 1, PseudoRandomLayout 2, 7),
      (Ref 2, PseudoRandomLayout 4, 7), (Ref 3, PseudoRandomLayout 2, 8)]"
    by (simp add: placed_def ex_profiles_def ex_heap_def ex_species_def ex_layouts_def upt_5)
  with ex_ops_run
    get_operations_simple_density_groups
      [of ex_tr ex_profiles "map Ref [0..<5]" ex_layouts ex_dict ex_ops]
  show ?thesis by blast
qed

section \<open>Properties of the translated simulation\<close>

text \<open>
  C9. Whenever \<open>get_as_pypicongpu\<close> returns a simulation, its typical number of particles
  per cell is at least 1; it is the value given by the user when there is one, and
  otherwise the value of \<open>get_typical_particle_per_cell()\<close>, which is the median of the
  sampling counts of the placed species whenever there are any. A user value below 1
  never yields a simulation: the translation ends with an exception.
\<close>

theorem get_as_pypicongpu_typical_ppc:
  "(get_as_pypicongpu C K self sim store = (Inr s, sim', store') \<longrightarrow>
      1 \<le> typical_ppc s \<and>
      (case picongpu_typical_ppc self of
         Some user_ppc \<Rightarrow> typical_ppc s = of_int user_ppc
       | None \<Rightarrow>
           get_typical_particle_per_cell C (s_init_manager s) = Inr (typical_ppc s) \<and>
           (sampling_counts (all_operations (s_init_manager s)) \<noteq> [] \<longrightarrow>
              typical_ppc s = median (sampling_counts (all_operations (s_init_manager s)))))) \<and>
   ((\<exists>user_ppc. picongpu_typical_ppc self = Some user_ppc \<and> user_ppc < 1) \<longrightarrow>
      (\<exists>e. fst (get_as_pypicongpu C K self sim store) = Inl e))"
proof (rule conjI; rule impI)
  assume run: "get_as_pypicongpu C K self sim store = (Inr s, sim', store')"
  then obtain a b c d initmgr v where
    v: "(case picongpu_typical_ppc self of
           None \<Rightarrow> get_typical_particle_per_cell C initmgr
         | Some user_ppc \<Rightarrow> Inr (of_int user_ppc)) = Inr v" and
    ge: "\<not> v < 1" and
    s: "s = \<lparr> delta_t_si = time_step_size self, s_solver = a,
              s_custom_user_input = picongpu_custom_user_input self,
              time_steps = b, s_grid = c, s_laser = d,
              s_init_manager = initmgr, typical_ppc = v,
              moving_window =
                (case picongpu_moving_window_move_point self of
                   None \<Rightarrow> None
                 | Some move_point \<Rightarrow>
                     Some (move_point, picongpu_moving_window_stop_iteration self)) \<rparr>"
    unfolding get_as_pypicongpu_def
    by (auto split: sum.splits prod.splits if_splits)
  have im: "s_init_manager s = initmgr" and tp: "typical_ppc s = v"
    by (simp_all add: s)
  show "1 \<le> typical_ppc s \<and>
      (case picongpu_typical_ppc self of
         Some user_ppc \<Rightarrow> typical_ppc s = of_int user_ppc
       | None \<Rightarrow>
           get_typical_particle_per_cell C (s_init_manager s) = Inr (typical_ppc s) \<and>
           (sampling_counts (all_operations (s_init_manager s)) \<noteq> [] \<longrightarrow>
              typical_ppc s = median (sampling_counts (all_operations (s_init_manager s)))))"
    using v ge
    by (auto simp: im tp get_typical_particle_per_cell_def Let_def split: option.splits if_splits)
next
  assume "\<exists>user_ppc. picongpu_typical_ppc self = Some user_ppc \<and> user_ppc < 1"
  then obtain user_ppc where u: "picongpu_typical_ppc self = Some user_ppc" "user_ppc < 1"
    by blast
  then have "(of_int user_ppc :: rat) < 1" by simp
  with u(1) show "\<exists>e. fst (get_as_pypicongpu C K self sim store) = Inl e"
    unfolding get_as_pypicongpu_def
    by (auto split: sum.splits prod.splits)
qed

lemma ex_translate_attributes:
  "translate_attributes ex_collaborators (ex_attributes\<lparr> picongpu_typical_ppc := u \<rparr>) =
     Inr (PypicSolver 0, 100, PypicGrid 0, None)"
  by (simp add: translate_attributes_def ex_collaborators_def ex_attributes_def ebind_def
        unsupported_def)

lemma ex_resolve: "resolve_electrons ex_constants ex_plasma = (Inr (), ex_plasma)"
  unfolding resolve_electrons_def
  by (rule resolve_electrons_loop_nothing)
     (simp add: unresolved_def ex_plasma_def ex_profiles_def ex_heap_def ex_species_def upt_5)

lemma ex_translate_species:
  "translate_species ex_collaborators ex_profiles (map Ref [0..<5]) [] [] ex_store =
     Inr (ex_dict, [PRef 10, PRef 11, PRef 12, PRef 13, PRef 14], ex_translated)"
  by (simp add: ex_collaborators_def ex_profiles_def ex_heap_def ex_species_def ex_store_def
        ex_dict_def ex_translated_def upt_5 ebind_def Let_def fun_eq_iff)

lemma ex_fill:
  "fill_ionization_electrons ex_profiles ex_dict (pypic_heap ex_translated) =
     (Inr (), pypic_heap ex_translated)"
  by (simp add: fill_ionization_electrons_def ex_dict_def ex_translated_def)

lemma ex_not_placed:
  "get_operations_not_placed ex_profiles (map Ref [0..<5]) ex_layouts ex_dict = Inr [PRef 14]"
  by (simp add: get_operations_not_placed_def ex_profiles_def ex_heap_def ex_species_def
        ex_layouts_def ex_dict_def upt_5 ebind_def)

lemma ex_independent:
  "get_operations_from_individual_species ex_collaborators ex_profiles ex_dict =
     Inr [0, 1, 2, 3, 4]"
  by (simp add: get_operations_from_individual_species_def ex_collaborators_def ex_dict_def
        ebind_def)

lemma ex_check:
  "check_layouts_and_profiles ex_profiles (zip ex_layouts (map Ref [0..<5])) = Inr ()"
  by (simp add: ex_profiles_def ex_heap_def ex_species_def ex_layouts_def upt_5)

lemma ex_get_init_manager:
  "get_init_manager ex_collaborators ex_plasma ex_store = Inr (ex_initmgr, ex_translated)"
proof -
  have tr: "profile_get_as_pypicongpu ex_collaborators = ex_tr"
    by (simp add: ex_collaborators_def)
  have len: "length (species ex_plasma) = length (layouts ex_plasma)"
    by (simp add: ex_plasma_def ex_layouts_def)
  have sel: "heap ex_plasma = ex_profiles" "species ex_plasma = map Ref [0..<5]"
    "layouts ex_plasma = ex_layouts"
    by (simp_all add: ex_plasma_def)
  show ?thesis
    unfolding get_init_manager_def
    by (simp add: len, simp add: sel tr ex_check ex_translate_species ex_fill ex_ops_run
          ex_not_placed ex_independent ebind_def ex_initmgr_def)
qed

lemma ex_sampling_counts:
  "sampling_counts (all_operations ex_initmgr) = [2, 2, 2, 4]"
  by (simp add: sampling_counts_def ex_initmgr_def ex_ops_def)

lemma ex_median: "median [2, 2, 2, 4] = 2"
  by (simp add: median_def)

lemma ex_run:
  "get_as_pypicongpu ex_collaborators ex_constants (ex_attributes\<lparr> picongpu_typical_ppc := u \<rparr>)
     ex_plasma ex_store =
   (case (case u of None \<Rightarrow> Inr 2 | Some user_ppc \<Rightarrow> Inr (of_int user_ppc)) of
      Inl e \<Rightarrow> (Inl e, ex_plasma, ex_translated)
    | Inr v \<Rightarrow>
        if v < 1 then (Inl (ValueError typical_ppc_message), ex_plasma, ex_translated)
        else (Inr \<lparr> delta_t_si = None, s_solver = PypicSolver 0, s_custom_user_input = None,
                     time_steps = 100, s_grid = PypicGrid 0, s_laser = None,
                     s_init_manager = ex_initmgr, typical_ppc = v, moving_window = None \<rparr>,
              ex_plasma, ex_translated))"
proof -
  have t: "get_typical_particle_per_cell ex_collaborators ex_initmgr = Inr 2"
    by (simp add: get_typical_particle_per_cell_def ex_sampling_counts ex_median)
  have a: "time_step_size ex_attributes = None"
    "picongpu_custom_user_input ex_attributes = None"
    "picongpu_moving_window_move_point ex_attributes = None"
    by (simp_all add: ex_attributes_def)
  show ?thesis
    unfolding get_as_pypicongpu_def
    by (simp add: ex_translate_attributes ex_resolve ex_get_init_manager t a split: option.splits)
qed

theorem get_as_pypicongpu_typical_ppc_witness:
  "(\<exists>s. get_as_pypicongpu ex_collaborators ex_constants ex_attributes ex_plasma ex_store =
          (Inr s, ex_plasma, ex_translated) \<and>
        sampling_counts (all_operations (s_init_manager s)) = [2, 2, 2, 4] \<and>
        typical_ppc s = median [2, 2, 2, 4] \<and> typical_ppc s = 2 \<and> 1 \<le> typical_ppc s) \<and>
   (\<exists>s. get_as_pypicongpu ex_collaborators ex_constants
          (ex_attributes\<lparr> picongpu_typical_ppc := Some 7 \<rparr>) ex_plasma ex_store =
          (Inr s, ex_plasma, ex_translated) \<and>
        typical_ppc s = 7 \<and> 1 \<le> typical_ppc s) \<and>
   fst (get_as_pypicongpu ex_collaborators ex_constants
          (ex_attributes\<lparr> picongpu_typical_ppc := Some 0 \<rparr>) ex_plasma ex_store) =
     Inl (ValueError typical_ppc_message)"
proof -
  let ?s = "\<lambda>v. \<lparr> delta_t_si = None :: int option, s_solver = PypicSolver 0,
                 s_custom_user_input = None, time_steps = 100 :: int, s_grid = PypicGrid 0,
                 s_laser = None, s_init_manager = ex_initmgr, typical_ppc = v,
                 moving_window = None \<rparr>"
  have r1: "get_as_pypicongpu ex_collaborators ex_constants ex_attributes ex_plasma ex_store =
          (Inr (?s 2), ex_plasma, ex_translated)"
    using ex_run [of None] by (simp add: ex_attributes_def)
  have u1: "picongpu_typical_ppc ex_attributes = None"
    by (simp add: ex_attributes_def)
  have c1: "sampling_counts (all_operations (s_init_manager (?s 2))) = [2, 2, 2, 4]"
    by (simp add: ex_sampling_counts)
  from get_as_pypicongpu_typical_ppc
    [of ex_collaborators ex_constants ex_attributes ex_plasma ex_store "?s 2"
        ex_plasma ex_translated] r1
  have "1 \<le> typical_ppc (?s 2)" and
    "typical_ppc (?s 2) = median (sampling_counts (all_operations (s_init_manager (?s 2))))"
    by (simp_all only: u1 option.case c1) simp_all
  with r1 c1 have first: "\<exists>s. get_as_pypicongpu ex_collaborators ex_constants ex_attributes
          ex_plasma ex_store = (Inr s, ex_plasma, ex_translated) \<and>
        sampling_counts (all_operations (s_init_manager s)) = [2, 2, 2, 4] \<and>
        typical_ppc s = median [2, 2, 2, 4] \<and> typical_ppc s = 2 \<and> 1 \<le> typical_ppc s"
    by (intro exI [of _ "?s 2"]) simp
  have r2: "get_as_pypicongpu ex_collaborators ex_constants
          (ex_attributes\<lparr> picongpu_typical_ppc := Some 7 \<rparr>) ex_plasma ex_store =
          (Inr (?s 7), ex_plasma, ex_translated)"
    using ex_run [of "Some 7"] by simp
  from get_as_pypicongpu_typical_ppc
    [of ex_collaborators ex_constants "ex_attributes\<lparr> picongpu_typical_ppc := Some 7 \<rparr>"
        ex_plasma ex_store "?s 7" ex_plasma ex_translated] r2
  have "1 \<le> typical_ppc (?s 7) \<and> typical_ppc (?s 7) = 7"
    by simp
  with r2 have second: "\<exists>s. get_as_pypicongpu ex_collaborators ex_constants
          (ex_attributes\<lparr> picongpu_typical_ppc := Some 7 \<rparr>) ex_plasma ex_store =
          (Inr s, ex_plasma, ex_translated) \<and>
        typical_ppc s = 7 \<and> 1 \<le> typical_ppc s"
    by (intro exI [of _ "?s 7"]) simp
  have third: "fst (get_as_pypicongpu ex_collaborators ex_constants
          (ex_attributes\<lparr> picongpu_typical_ppc := Some 0 \<rparr>) ex_plasma ex_store) =
     Inl (ValueError typical_ppc_message)"
    using ex_run [of "Some 0"] by simp
  from first second third show ?thesis by blast
qed

section \<open>Properties of the time step and the CFL parameter\<close>

lemma real_courant_factor:
  "dx \<noteq> 0 \<Longrightarrow> dy \<noteq> 0 \<Longrightarrow> dz \<noteq> 0 \<Longrightarrow>
   courant_factor (real_arithmetic c fmt) dx dy dz =
     Inr (c * sqrt (1 / dx ^ 2 + 1 / dy ^ 2 + 1 / dz ^ 2))"
proof -
  assume nz: "dx \<noteq> 0" "dy \<noteq> 0" "dz \<noteq> 0"
  have "\<not> 1 / dx ^ 2 + 1 / dy ^ 2 + 1 / dz ^ 2 < 0"
    by (simp add: add_nonneg_nonneg not_less)
  with nz show ?thesis
    by (simp add: courant_factor_def real_arithmetic_def ebind_def)
qed


text \<open>
  C1. Under the same conditions, with both the time step and the CFL parameter set:
  the method divides the CFL parameter by \<open>S\<close> and raises the ValueError, whose message
  names the time step and the time step expected from the CFL parameter, exactly when
  this quotient differs from the time step in the sense of \<open>!=\<close>; otherwise it returns
  and changes nothing. This holds for every arithmetic.
\<close>

theorem yee_checks_both_parameters:
  assumes "solver self = Some sol" and "solver_method sol = ''Yee''"
    and "grid sol = Cartesian3DGrid (lx, ly, lz) (ux, uy, uz) (nx, ny, nz)"
    and "spacing A lx ux nx = Inr dx" and "spacing A ly uy ny = Inr dy"
    and "spacing A lz uz nz = Inr dz"
    and "time_step_size self = Some dt" and "cfl sol = Some k"
    and "courant_factor A dx dy dz = Inr S" and "num_div A k S = Inr dt_from_cfl"
  shows "yee_compute_cfl_or_delta_t A self =
           (if num_ne A dt_from_cfl dt
            then Inl (ValueError (mismatch_message (num_format A dt) (num_format A dt_from_cfl)))
            else Inr self)"
  using assms by (simp add: yee_compute_cfl_or_delta_t_def ebind_def)

section \<open>The time step and the CFL parameter on Python floats\<close>

lemma round_half_even_int: "round_half_even (of_int m) = m"
  by (simp add: round_half_even_def)

lemma round_half_even_eq:
  "of_int m - 1 / 2 < x \<Longrightarrow> x < of_int m + 1 / 2 \<Longrightarrow> round_half_even x = m"
proof -
  assume lo: "of_int m - 1 / 2 < x" and hi: "x < of_int m + 1 / 2"
  show ?thesis
  proof (cases "of_int m \<le> x")
    case True
    with hi have "\<lfloor>x\<rfloor> = m" by (intro floor_unique) auto
    with hi show ?thesis by (simp add: round_half_even_def)
  next
    case False
    with lo have f: "\<lfloor>x\<rfloor> = m - 1" by (intro floor_unique) auto
    with lo show ?thesis by (simp add: round_half_even_def Let_def)
  qed
qed

lemma round_double_eq:
  assumes "2 powi e \<le> \<bar>x\<bar>" and "\<bar>x\<bar> < 2 powi (e + 1)" and "- 1022 \<le> e"
    and "round_half_even (x / 2 powi (e - 52)) = m"
    and "\<bar>of_int m * 2 powi (e - 52)\<bar> < (2 :: real) ^ 1024"
  shows "round_double x = Finite (of_int m * 2 powi (e - 52))"
proof -
  have pos: "0 < \<bar>x\<bar>"
    using assms(1) by (smt (verit) zero_less_power_int)
  have p1: "(2::real) powr real_of_int e = 2 powi e"
    by (rule powr_real_of_int') simp_all
  have "(2::real) powr real_of_int (e + 1) = 2 powi (e + 1)"
    by (rule powr_real_of_int') simp_all
  moreover have "real_of_int (e + 1) = real_of_int e + 1" by simp
  ultimately have p2: "(2::real) powr (real_of_int e + 1) = 2 powi (e + 1)"
    by (simp only:)
  have "(2::real) powr real_of_int e \<le> \<bar>x\<bar>" "\<bar>x\<bar> < 2 powr (real_of_int e + 1)"
    using assms(1,2) unfolding p1 p2 by simp_all
  then have "\<lfloor>log 2 \<bar>x\<bar>\<rfloor> = e"
    using pos by (simp add: floor_log_eq_powr_iff)
  with assms(3) have e: "max \<lfloor>log 2 \<bar>x\<bar>\<rfloor> (- 1022) = e" by simp
  from pos have "x \<noteq> 0" by auto
  then show ?thesis
    using assms(4,5) by (simp add: round_double_def e Let_def not_le)
qed

lemma round_double_exact:
  assumes "x = of_int m * 2 powi (e - 52)" and "2 ^ 52 \<le> \<bar>m\<bar>" and "\<bar>m\<bar> < 2 ^ 53"
    and "- 1022 \<le> e" and "e \<le> 1023"
  shows "round_double x = Finite x"
proof -
  have u: "(0::real) < 2 powi (e - 52)" by simp
  have absx: "\<bar>x\<bar> = of_int \<bar>m\<bar> * 2 powi (e - 52)"
    by (simp add: assms(1) abs_mult)
  have s1: "(2::real) powi e = 2 ^ 52 * 2 powi (e - 52)"
    using power_int_add [of "2::real" 52 "e - 52"] by simp
  have s2: "(2::real) powi (e + 1) = 2 ^ 53 * 2 powi (e - 52)"
    using power_int_add [of "2::real" 53 "e - 52"] by (simp add: add.commute)
  have "(2::real) ^ 52 \<le> of_int \<bar>m\<bar>"
    using assms(2) by (metis of_int_le_iff of_int_numeral of_int_power)
  then have lo: "2 powi e \<le> \<bar>x\<bar>"
    unfolding absx s1 using u by (intro mult_right_mono) simp_all
  have "of_int \<bar>m\<bar> < (2::real) ^ 53"
    using assms(3) by (metis of_int_less_iff of_int_numeral of_int_power)
  then have hi: "\<bar>x\<bar> < 2 powi (e + 1)"
    unfolding absx s2 using u by (intro mult_strict_right_mono) simp_all
  have r: "round_half_even (x / 2 powi (e - 52)) = m"
    using u by (simp add: assms(1) round_half_even_int)
  have "(2::real) powi (e + 1) \<le> 2 powi 1024"
    using assms(5) by (intro power_int_increasing) simp_all
  with hi have "\<bar>x\<bar> < (2::real) ^ 1024" by simp
  then have b: "\<bar>of_int m * 2 powi (e - 52)\<bar> < (2::real) ^ 1024"
    by (simp only: assms(1))
  from round_double_eq [OF lo hi assms(4) r b] show ?thesis
    by (simp only: assms(1))
qed

lemma rd_1: "round_double 1 = Finite 1"
  by (rule round_double_exact [where m = "2 ^ 52" and e = 0]) simp_all

lemma rd_half: "round_double (1 / 2) = Finite (1 / 2)"
  by (rule round_double_exact [where m = "2 ^ 52" and e = "- 1"]) simp_all

lemma rd_quarter: "round_double (1 / 4) = Finite (1 / 4)"
  by (rule round_double_exact [where m = "2 ^ 52" and e = "- 2"]) simp_all

lemma rd_4: "round_double 4 = Finite 4"
  by (rule round_double_exact [where m = "2 ^ 52" and e = 2]) simp_all

lemma rd_8: "round_double 8 = Finite 8"
  by (rule round_double_exact [where m = "2 ^ 52" and e = 3]) simp_all

lemma rd_9: "round_double 9 = Finite 9"
  by (rule round_double_exact [where m = "9 * 2 ^ 49" and e = 3]) simp_all

lemma rd_3: "round_double 3 = Finite 3"
  by (rule round_double_exact [where m = "3 * 2 ^ 51" and e = 1]) simp_all

lemma rd_S: "round_double 899377374 = Finite 899377374"
  by (rule round_double_exact [where m = "899377374 * 2 ^ 23" and e = 29]) simp_all

lemma rd_delta_t:
  "round_double (113 / 128 / 899377374) = Finite (4746638534531512 * 2 powi (- 82))"
proof -
  have r: "round_half_even (113 / 128 / 899377374 / 2 powi (- 30 - 52)) = 4746638534531512"
    by (rule round_half_even_eq) (simp_all add: power_int_minus)
  have "round_double (113 / 128 / 899377374) =
          Finite (of_int 4746638534531512 * 2 powi (- 30 - 52))"
    by (rule round_double_eq [OF _ _ _ r]) (simp_all add: power_int_minus)
  then show ?thesis by simp
qed

lemma rd_product:
  "round_double (4746638534531512 * 2 powi (- 82) * 899377374) =
     Finite (7951668092076033 * 2 powi (- 53))"
proof -
  have r: "round_half_even (4746638534531512 * 2 powi (- 82) * 899377374 / 2 powi (- 1 - 52)) =
             7951668092076033"
    by (rule round_half_even_eq) (simp_all add: power_int_minus)
  have "round_double (4746638534531512 * 2 powi (- 82) * 899377374) =
          Finite (of_int 7951668092076033 * 2 powi (- 1 - 52))"
    by (rule round_double_eq [OF _ _ _ r]) (simp_all add: power_int_minus)
  then show ?thesis by simp
qed

lemma rd_0: "round_double 0 = Finite 0"
  by (simp add: round_double_def)

lemma ex_float_spacing:
  "spacing ex_float_arithmetic (Finite 0) (Finite 1) (Finite 2) = Inr (Finite (1 / 2))"
  "spacing ex_float_arithmetic (Finite 0) (Finite 1) (Finite 1) = Inr (Finite 1)"
  by (simp_all add: spacing_def ex_float_arithmetic_def float_arithmetic_def ebind_def
        float_sub_def rd_1 rd_half)

lemma ex_float_courant_factor:
  "courant_factor ex_float_arithmetic (Finite (1 / 2)) (Finite (1 / 2)) (Finite 1) =
     Inr (Finite 899377374)"
proof -
  have sq: "sqrt 9 = 3"
    using real_sqrt_abs [of 3] by simp
  have p: "float_pow2 (Finite (1 / 2)) = Inr (Finite (1 / 4))" "float_pow2 (Finite 1) = Inr (Finite 1)"
    by (simp_all add: rd_quarter rd_1)
  have d: "float_truediv (Finite 1) (Finite (1 / 4)) = Inr (Finite 4)"
    "float_truediv (Finite 1) (Finite 1) = Inr (Finite 1)"
    by (simp_all add: rd_4 rd_1)
  have a: "float_add (Finite 4) (Finite 4) = Finite 8" "float_add (Finite 8) (Finite 1) = Finite 9"
    by (simp_all add: rd_8 rd_9)
  have r: "float_sqrt (Finite 9) = Inr (Finite 3)"
    by (simp add: sq rd_3)
  have m: "float_mul (Finite 299792458) (Finite 3) = Finite 899377374"
    by (simp add: rd_S)
  show ?thesis
    unfolding courant_factor_def ex_float_arithmetic_def float_arithmetic_def
    by (simp only: arithmetic.simps p d a r m ebind_def sum.case)
qed

lemma float_truediv_Finite:
  "b \<noteq> 0 \<Longrightarrow> float_truediv (Finite a) (Finite b) = Inr (round_double (a / b))"
  by simp

lemma ex_float_quotient:
  "num_div ex_float_arithmetic (Finite (113 / 128)) (Finite 899377374) = Inr ex_delta_t"
proof -
  have "(899377374 :: real) \<noteq> 0" by simp
  from float_truediv_Finite [OF this, of "113 / 128"] show ?thesis
    unfolding ex_float_arithmetic_def float_arithmetic_def ex_delta_t_def
    by (simp only: arithmetic.simps rd_delta_t)
qed

lemma ex_float_product:
  "num_mul ex_float_arithmetic ex_delta_t (Finite 899377374) =
     Inr (Finite (7951668092076033 * 2 powi (- 53)))"
  unfolding ex_float_arithmetic_def float_arithmetic_def ex_delta_t_def
  by (simp only: arithmetic.simps float_mul.simps rd_product)



















theorem yee_checks_both_parameters_witness:
  "yee_compute_cfl_or_delta_t ex_float_arithmetic ex_float_attributes = Inr ex_float_attributes \<and>
   yee_compute_cfl_or_delta_t ex_float_arithmetic
     (ex_attributes_of (Some (Finite 1)) (Some (Finite (113 / 128))) ex_float_grid) =
     Inl (ValueError (mismatch_message ''float'' ''float''))"
proof -
  let ?sol = "\<lparr> solver_method = ''Yee'', cfl = Some (Finite (113 / 128)), grid = ex_float_grid \<rparr>"
  have s: "solver (ex_attributes_of dt (Some (Finite (113 / 128))) ex_float_grid) = Some ?sol" for dt
    by (simp add: ex_attributes_of_def)
  have m: "solver_method ?sol = ''Yee''" by simp
  have g: "grid ?sol = Cartesian3DGrid (Finite 0, Finite 0, Finite 0)
             (Finite 1, Finite 1, Finite 1) (Finite 2, Finite 2, Finite 1)"
    by (simp add: ex_float_grid_def)
  have d: "time_step_size (ex_attributes_of (Some dt) (Some (Finite (113 / 128))) ex_float_grid) =
             Some dt" for dt
    by (simp add: ex_attributes_of_def)
  have k: "cfl ?sol = Some (Finite (113 / 128))" by simp
  note t = yee_checks_both_parameters
    [OF s m g ex_float_spacing(1) ex_float_spacing(1) ex_float_spacing(2) d k
        ex_float_courant_factor ex_float_quotient]
  have same: "\<not> num_ne ex_float_arithmetic ex_delta_t ex_delta_t"
    by (simp add: ex_float_arithmetic_def float_arithmetic_def ex_delta_t_def)
  have other: "num_ne ex_float_arithmetic ex_delta_t (Finite 1)"
    by (simp add: ex_float_arithmetic_def float_arithmetic_def ex_delta_t_def power_int_minus)
  have fmt: "num_format ex_float_arithmetic x = ''float''" for x
    by (simp add: ex_float_arithmetic_def float_arithmetic_def)
  from t [of ex_delta_t] t [of "Finite 1"] same other show ?thesis
    by (simp add: ex_float_attributes_def fmt)
qed

text \<open>
  With floats, the test of the quotient \<open>cfl / S != time_step_size\<close> is not the test of
  the product \<open>cfl != time_step_size * S\<close>. For the grid above, \<open>cfl = 0.8828125\<close> and
  \<open>time_step_size = 9.815818426403954e-10\<close>, the quotient \<open>cfl / S\<close> is the time step, so
  nothing is raised and nothing changes; but the product \<open>time_step_size * S\<close> is
  \<open>0.8828125000000001\<close>, which differs from the CFL parameter.
\<close>

theorem yee_exact_product_counterexample:
  "yee_compute_cfl_or_delta_t ex_float_arithmetic ex_float_attributes = Inr ex_float_attributes \<and>
   time_step_size ex_float_attributes = Some ex_delta_t \<and>
   map_option cfl (solver ex_float_attributes) = Some (Some (Finite (113 / 128))) \<and>
   courant_factor ex_float_arithmetic (Finite (1 / 2)) (Finite (1 / 2)) (Finite 1) =
     Inr (Finite 899377374) \<and>
   num_mul ex_float_arithmetic ex_delta_t (Finite 899377374) =
     Inr (Finite (7951668092076033 * 2 powi (- 53))) \<and>
   num_ne ex_float_arithmetic (Finite (113 / 128)) (Finite (7951668092076033 * 2 powi (- 53)))"
proof -
  have ne: "num_ne ex_float_arithmetic (Finite (113 / 128))
              (Finite (7951668092076033 * 2 powi (- 53)))"
    by (simp add: ex_float_arithmetic_def float_arithmetic_def power_int_minus)
  have same: "\<not> num_ne ex_float_arithmetic ex_delta_t ex_delta_t"
    by (simp add: ex_float_arithmetic_def float_arithmetic_def ex_delta_t_def)
  have run: "yee_compute_cfl_or_delta_t ex_float_arithmetic ex_float_attributes =
               Inr ex_float_attributes"
    by (simp add: yee_compute_cfl_or_delta_t_def ex_float_attributes_def ex_attributes_of_def
          ex_float_grid_def ex_float_spacing ex_float_courant_factor ex_float_quotient same
          ebind_def)
  have "time_step_size ex_float_attributes = Some ex_delta_t"
    "map_option cfl (solver ex_float_attributes) = Some (Some (Finite (113 / 128)))"
    by (simp_all add: ex_float_attributes_def ex_attributes_of_def)
  with run ne ex_float_courant_factor ex_float_product show ?thesis by simp
qed


end
